theory Spec2Isabelle
  imports Main
begin

section \<open>Graceful stop of a runner pod: controllers/runner_graceful_stop.go\<close>

text \<open>
  A shallow embedding of \<^verbatim>\<open>tickRunnerGracefulStop\<close>, \<^verbatim>\<open>annotatePodOnce\<close>,
  \<^verbatim>\<open>ensureRunnerUnregistration\<close>, \<^verbatim>\<open>ensureRunnerPodRegistered\<close>,
  \<^verbatim>\<open>unregisterRunner\<close>, \<^verbatim>\<open>getRunner\<close>, \<^verbatim>\<open>getAnnotation\<close> and
  \<^verbatim>\<open>setAnnotation\<close>. The helpers \<^verbatim>\<open>podConditionTransitionTime\<close>,
  \<^verbatim>\<open>podConditionTransitionTimeAfter\<close> and \<^verbatim>\<open>podRunnerID\<close>, which none of these functions
  calls, are left out.

  Conventions of the embedding:
  \<^item> a Go pointer that may be nil is an \<open>option\<close> (\<open>None\<close> is nil);
  \<^item> a Go \<open>error\<close> result is an \<open>error option\<close> (\<open>None\<close> is the nil error);
  \<^item> a nil pointer dereference is the outcome \<open>Panic\<close>;
  \<^item> every call that leaves the process (the clock, the Kubernetes client, the GitHub
    client) appends an event to a history, and the answer of the collaborator is a
    function of the history so far, so successive calls may be answered differently;
  \<^item> logging is not modelled.
\<close>

subsection \<open>Values\<close>

text \<open>\<^verbatim>\<open>time.Time\<close> as nanoseconds since the epoch, \<^verbatim>\<open>time.Duration\<close> as its int64 count
  of nanoseconds.\<close>

type_synonym time = int
type_synonym duration = int

definition minDuration :: duration where
  "minDuration = - (2 ^ 63)"

definition maxDuration :: duration where
  "maxDuration = 2 ^ 63 - 1"

text \<open>\<^verbatim>\<open>t.Add(d)\<close>; the instants read from an RFC3339 text have a four digit year, far from
  the range where \<^verbatim>\<open>Add\<close> saturates.\<close>

definition time_Add :: "time \<Rightarrow> duration \<Rightarrow> time" where
  "time_Add t d = t + d"

text \<open>\<^verbatim>\<open>t.Sub(u)\<close> saturates at the least and the greatest duration.\<close>

definition time_Sub :: "time \<Rightarrow> time \<Rightarrow> duration" where
  "time_Sub t u = (if t - u < minDuration then minDuration
                   else if maxDuration < t - u then maxDuration else t - u)"

text \<open>\<^verbatim>\<open>gogithub.Rate\<close>, the rate limit a \<^verbatim>\<open>*gogithub.RateLimitError\<close> carries. \<open>Reset\<close> is
  \<open>None\<close> for the zero \<^verbatim>\<open>Timestamp\<close>.\<close>

record Rate =
  Limit :: int
  Remaining :: int
  Reset :: "time option"

definition zeroRate :: Rate where
  "zeroRate = \<lparr>Limit = 0, Remaining = 0, Reset = None\<rparr>"

text \<open>The errors this code meets. \<open>RateLimitError rate message response\<close> is a
  \<^verbatim>\<open>*gogithub.RateLimitError\<close> with its \<^verbatim>\<open>Rate\<close>, its \<^verbatim>\<open>Message\<close> and the status code of its
  \<^verbatim>\<open>Response\<close> (\<open>None\<close> for a nil response); the GitHub client builds it from the response
  it received, so there \<open>response\<close> is never \<open>None\<close>. \<open>ErrorResponse code\<close> is a
  \<^verbatim>\<open>*gogithub.ErrorResponse\<close> whose \<^verbatim>\<open>Response.StatusCode\<close> is \<open>code\<close>, \<open>NumError\<close> the
  \<^verbatim>\<open>*strconv.NumError\<close> of \<^verbatim>\<open>strconv.ParseInt\<close>, \<open>ParseError\<close> the \<^verbatim>\<open>*time.ParseError\<close> of
  \<^verbatim>\<open>time.Parse\<close>, \<open>Wrapped msg e\<close> is \<^verbatim>\<open>fmt.Errorf("msg: %w", e)\<close>, and \<open>OtherError\<close> is every
  other error (a failed patch, a transport failure).\<close>

datatype error =
    RateLimitError Rate string "int option"
  | ErrorResponse int
  | NumError string
  | ParseError string
  | OtherError string
  | Wrapped string error

text \<open>\<^verbatim>\<open>errors.Is(err, &gogithub.RateLimitError{})\<close> walks the chain of wrapped errors. The
  target is a pointer made for this call, so no error of the chain is equal to it, and an
  error is accepted only by its own \<^verbatim>\<open>Is\<close> method. That of \<^verbatim>\<open>*gogithub.RateLimitError\<close>
  compares \<^verbatim>\<open>Rate\<close>, \<^verbatim>\<open>Message\<close> and \<^verbatim>\<open>Response\<close> with those of the target, which are the
  zero values; that of \<^verbatim>\<open>*gogithub.ErrorResponse\<close> refuses a target of another type.\<close>

fun errors_Is_RateLimitError :: "error \<Rightarrow> bool" where
  "errors_Is_RateLimitError (RateLimitError rate message response) =
     (rate = zeroRate \<and> message = [] \<and> response = None)"
| "errors_Is_RateLimitError (Wrapped msg e) = errors_Is_RateLimitError e"
| "errors_Is_RateLimitError e = False"

text \<open>\<^verbatim>\<open>errors.As(err, &errRes)\<close> with \<^verbatim>\<open>errRes\<close> a \<^verbatim>\<open>*gogithub.ErrorResponse\<close>: the first
  error response of the chain, by its status code.\<close>

fun errors_As_ErrorResponse :: "error \<Rightarrow> int option" where
  "errors_As_ErrorResponse (ErrorResponse code) = Some code"
| "errors_As_ErrorResponse (Wrapped msg e) = errors_As_ErrorResponse e"
| "errors_As_ErrorResponse e = None"

text \<open>\<^verbatim>\<open>ctrl.Result\<close>.\<close>

record Result =
  Requeue :: bool
  RequeueAfter :: duration

definition emptyResult :: Result where
  "emptyResult = \<lparr>Requeue = False, RequeueAfter = 0\<rparr>"

text \<open>\<^verbatim>\<open>corev1.Pod\<close>: the annotations of its \<^verbatim>\<open>ObjectMeta\<close> (a Go map, nil or not), and of its
  status the phase and, for each container, its name and the exit code of its terminated
  state if it has one. Nothing else of a pod is read by this file.\<close>

record Pod =
  Annotations :: "(string \<rightharpoonup> string) option"
  Phase :: string
  ContainerStatuses :: "(string \<times> int option) list"

text \<open>\<^verbatim>\<open>gogithub.Runner\<close>: \<^verbatim>\<open>ID *int64\<close> and \<^verbatim>\<open>Name *string\<close>.\<close>

record Runner =
  ID :: "int option"
  Name :: "string option"

definition GetName :: "Runner \<Rightarrow> string" where
  "GetName r = (case Name r of None \<Rightarrow> [] | Some n \<Rightarrow> n)"

text \<open>The enterprise, organization and repository strings that every call of the GitHub
  client is given.\<close>

record Scope =
  enterprise :: string
  organization :: string
  repository :: string

text \<open>The outcome of a Go call: it returns, or it panics.\<close>

datatype 'a outcome = Panic | Return 'a

subsection \<open>Collaborators\<close>

text \<open>The calls that leave the process, in the order they were made. \<open>EvPatch updated orig\<close> is
  \<^verbatim>\<open>c.Patch(ctx, updated, client.MergeFrom(orig))\<close>, with \<open>updated\<close> as it was sent.\<close>

datatype event =
    EvNow
  | EvPatch Pod Pod
  | EvListRunners Scope
  | EvRemoveRunner Scope int

type_synonym history = "event list"

text \<open>The number of events of one kind in a history.\<close>

definition calls :: "(event \<Rightarrow> bool) \<Rightarrow> history \<Rightarrow> nat" where
  "calls P es = length (filter P es)"

fun isPatch :: "event \<Rightarrow> bool" where
  "isPatch (EvPatch updated orig) = True"
| "isPatch e = False"

fun isRemoveRunner :: "event \<Rightarrow> bool" where
  "isRemoveRunner (EvRemoveRunner sc i) = True"
| "isRemoveRunner e = False"

fun isListRunners :: "event \<Rightarrow> bool" where
  "isListRunners (EvListRunners sc) = True"
| "isListRunners e = False"

fun isNow :: "event \<Rightarrow> bool" where
  "isNow EvNow = True"
| "isNow e = False"

text \<open>The value of a pod's annotation if the key is there (a nil map has none).\<close>

definition lookupAnnotation :: "Pod \<Rightarrow> string \<Rightarrow> string option" where
  "lookupAnnotation p key = (case Annotations p of None \<Rightarrow> None | Some m \<Rightarrow> m key)"

text \<open>An event that is no patch, or a patch that adds the one key \<open>k\<close>: \<open>orig\<close> lacks \<open>k\<close> and
  \<open>updated\<close> is \<open>orig\<close> with \<open>k\<close> set, so the patch changes and removes nothing that \<open>orig\<close>
  holds.\<close>

definition addsAnnotation :: "string \<Rightarrow> event \<Rightarrow> bool" where
  "addsAnnotation k ev =
     (case ev of
        EvPatch updated orig \<Rightarrow>
          lookupAnnotation orig k = None
          \<and> updated = orig\<lparr>Annotations :=
                Some ((case Annotations orig of None \<Rightarrow> Map.empty | Some m \<Rightarrow> m)
                        (k \<mapsto> (case lookupAnnotation updated k of None \<Rightarrow> [] | Some v \<Rightarrow> v)))\<rparr>
      | other \<Rightarrow> True)"

text \<open>What this file takes from outside: the clock and the RFC3339 functions of package
  \<^verbatim>\<open>time\<close>, the Kubernetes client \<^verbatim>\<open>c\<close>, the GitHub client \<^verbatim>\<open>ghClient\<close>, and three
  declarations of package \<^verbatim>\<open>controllers\<close> made in other files:
  \<^verbatim>\<open>runnerContainerExitCode\<close>, \<^verbatim>\<open>runnerPodOrContainerIsStopped\<close> and the constant
  \<^verbatim>\<open>retryDelayOnGitHubAPIRateLimitError\<close>. They are parameters of the model; an answer
  that depends on the moment of the call is a function of the history before it.\<close>

record env =
  time_Now :: "history \<Rightarrow> time"
  time_Format_RFC3339 :: "time \<Rightarrow> string"
  time_Parse_RFC3339 :: "string \<Rightarrow> error + time"
  client_Patch :: "Pod \<Rightarrow> Pod \<Rightarrow> history \<Rightarrow> error + Pod"
  ListRunners :: "Scope \<Rightarrow> history \<Rightarrow> error + Runner list"
  RemoveRunner :: "Scope \<Rightarrow> int \<Rightarrow> history \<Rightarrow> error option"
  runnerContainerExitCode :: "Pod option \<Rightarrow> int option"
  runnerPodOrContainerIsStopped :: "Pod option \<Rightarrow> bool"
  retryDelayOnGitHubAPIRateLimitError :: duration

text \<open>\<^verbatim>\<open>time.Now()\<close>.\<close>

definition call_Now :: "env \<Rightarrow> history \<Rightarrow> time \<times> history" where
  "call_Now E h = (time_Now E h, h @ [EvNow])"

text \<open>\<^verbatim>\<open>time.Until(t)\<close> is \<^verbatim>\<open>t.Sub(time.Now())\<close>.\<close>

definition time_Until :: "env \<Rightarrow> time \<Rightarrow> history \<Rightarrow> duration \<times> history" where
  "time_Until E t h = (let (now, h1) = call_Now E h in (time_Sub t now, h1))"

text \<open>\<^verbatim>\<open>c.Patch(ctx, updated, client.MergeFrom(orig))\<close>: an error, or the object the server
  answers, which the client decodes into \<^verbatim>\<open>updated\<close>.\<close>

definition call_Patch :: "env \<Rightarrow> Pod \<Rightarrow> Pod \<Rightarrow> history \<Rightarrow> (error + Pod) \<times> history" where
  "call_Patch E updated orig h = (client_Patch E updated orig h, h @ [EvPatch updated orig])"

definition call_ListRunners :: "env \<Rightarrow> Scope \<Rightarrow> history \<Rightarrow> (error + Runner list) \<times> history" where
  "call_ListRunners E sc h = (ListRunners E sc h, h @ [EvListRunners sc])"

definition call_RemoveRunner :: "env \<Rightarrow> Scope \<Rightarrow> int \<Rightarrow> history \<Rightarrow> error option \<times> history" where
  "call_RemoveRunner E sc i h = (RemoveRunner E sc i h, h @ [EvRemoveRunner sc i])"

subsection \<open>Annotation keys\<close>

text \<open>Modelled from the spec: the constants \<^verbatim>\<open>AnnotationKeyRunnerID\<close>,
  \<^verbatim>\<open>AnnotationKeyUnregistrationStartTimestamp\<close> and
  \<^verbatim>\<open>AnnotationKeyUnregistrationCompleteTimestamp\<close> are declared in another file of the
  package; the spec (sections 3 and 6) names the three keys \<^verbatim>\<open>runner-id\<close>,
  \<^verbatim>\<open>unregistration-start-timestamp\<close> and \<^verbatim>\<open>unregistration-complete-timestamp\<close>.\<close>

definition AnnotationKeyRunnerID :: string where
  "AnnotationKeyRunnerID = ''runner-id''"

definition AnnotationKeyUnregistrationStartTimestamp :: string where
  "AnnotationKeyUnregistrationStartTimestamp = ''unregistration-start-timestamp''"

definition AnnotationKeyUnregistrationCompleteTimestamp :: string where
  "AnnotationKeyUnregistrationCompleteTimestamp = ''unregistration-complete-timestamp''"

subsection \<open>Library functions\<close>

text \<open>\<^verbatim>\<open>strconv.ParseInt(s, 10, 64)\<close>: an optional sign, then one or more decimal digits (no
  underscore, since the base is given), and the value must fit in 64 bits signed. Which of
  the two causes (syntax, range) a \<^verbatim>\<open>NumError\<close> carries is not kept.\<close>

definition digitVal :: "char \<Rightarrow> nat option" where
  "digitVal c = (let n = (of_char c :: nat) in if 48 \<le> n \<and> n \<le> 57 then Some (n - 48) else None)"

fun parseDigits :: "string \<Rightarrow> nat \<Rightarrow> nat option" where
  "parseDigits [] acc = Some acc"
| "parseDigits (c # cs) acc =
     (case digitVal c of None \<Rightarrow> None | Some d \<Rightarrow> parseDigits cs (10 * acc + d))"

definition ParseUint :: "string \<Rightarrow> nat option" where
  "ParseUint s = (if s = [] then None else parseDigits s 0)"

definition ParseInt :: "string \<Rightarrow> error + int" where
  "ParseInt s =
     (if s = [] then Inl (NumError s)
      else
        let neg = (hd s = CHR ''-'');
            s0 = (if hd s = CHR ''+'' \<or> hd s = CHR ''-'' then tl s else s)
        in case ParseUint s0 of
             None \<Rightarrow> Inl (NumError s)
           | Some un \<Rightarrow>
               if \<not> neg \<and> 2 ^ 63 \<le> un then Inl (NumError s)
               else if neg \<and> 2 ^ 63 < un then Inl (NumError s)
               else Inr (if neg then - int un else int un))"

text \<open>\<^verbatim>\<open>fmt.Sprintf("%d", id)\<close>.\<close>

fun showNat :: "nat \<Rightarrow> string" where
  "showNat n = (if n < 10 then [char_of (48 + n)] else showNat (n div 10) @ [char_of (48 + n mod 10)])"

definition Sprintf_d :: "int \<Rightarrow> string" where
  "Sprintf_d i = (if i < 0 then CHR ''-'' # showNat (nat (- i)) else showNat (nat i))"

subsection \<open>Annotations\<close>

text \<open>\<^verbatim>\<open>getAnnotation\<close>: \<^verbatim>\<open>obj.GetAnnotations()\<close> is the method of the \<^verbatim>\<open>ObjectMeta\<close> embedded
  in the pod by value; called on a nil \<^verbatim>\<open>*corev1.Pod\<close> it reads a field through a nil
  pointer, and the call panics. A nil map has no key.\<close>

definition getAnnotation :: "Pod option \<Rightarrow> string \<Rightarrow> (string \<times> bool) outcome" where
  "getAnnotation obj key =
     (case obj of
        None \<Rightarrow> Panic
      | Some p \<Rightarrow>
          (case Annotations p of
             None \<Rightarrow> Return ([], False)
           | Some m \<Rightarrow> (case m key of None \<Rightarrow> Return ([], False) | Some v \<Rightarrow> Return (v, True))))"

text \<open>\<^verbatim>\<open>setAnnotation\<close>, on the pod that owns the \<^verbatim>\<open>ObjectMeta\<close>.\<close>

definition setAnnotation :: "Pod \<Rightarrow> string \<Rightarrow> string \<Rightarrow> Pod" where
  "setAnnotation p key v =
     p\<lparr>Annotations := Some ((case Annotations p of None \<Rightarrow> Map.empty | Some m \<Rightarrow> m)(key \<mapsto> v))\<rparr>"

text \<open>The Go expression \<^verbatim>\<open>pod.Annotations[key]\<close>: the empty string for a missing key and for
  a nil map.\<close>

definition annotationValue :: "Pod \<Rightarrow> string \<Rightarrow> string" where
  "annotationValue p key =
     (case Annotations p of None \<Rightarrow> [] | Some m \<Rightarrow> (case m key of None \<Rightarrow> [] | Some v \<Rightarrow> v))"

text \<open>\<^verbatim>\<open>annotatePodOnce\<close>. \<^verbatim>\<open>pod.DeepCopy()\<close> is the same value. After a patch that
  succeeded, \<^verbatim>\<open>updated\<close> holds the object the server answered, and that is the pod
  returned.\<close>

definition annotatePodOnce ::
  "env \<Rightarrow> Pod option \<Rightarrow> string \<Rightarrow> string \<Rightarrow> history
     \<Rightarrow> (Pod option \<times> error option) outcome \<times> history" where
  "annotatePodOnce E pod k v h =
     (case pod of
        None \<Rightarrow> (Return (None, None), h)
      | Some p \<Rightarrow>
          (case getAnnotation pod k of
             Panic \<Rightarrow> (Panic, h)
           | Return (x, ok) \<Rightarrow>
               if ok then (Return (pod, None), h)
               else
                 let updated = setAnnotation p k v in
                 (case call_Patch E updated p h of
                    (Inl err, h1) \<Rightarrow> (Return (None, Some err), h1)
                  | (Inr answered, h1) \<Rightarrow> (Return (Some answered, None), h1))))"

subsection \<open>The GitHub registry\<close>

text \<open>\<^verbatim>\<open>getRunner\<close>: the first runner of the list with the name.\<close>

definition getRunner ::
  "env \<Rightarrow> Scope \<Rightarrow> string \<Rightarrow> history \<Rightarrow> (Runner option \<times> error option) \<times> history" where
  "getRunner E sc name h =
     (case call_ListRunners E sc h of
        (Inl err, h1) \<Rightarrow> ((None, Some err), h1)
      | (Inr runners, h1) \<Rightarrow> ((find (\<lambda>runner. GetName runner = name) runners, None), h1))"

text \<open>\<^verbatim>\<open>unregisterRunner\<close>: the first step finds the id, or returns early (\<open>Inl\<close>); the second
  calls \<^verbatim>\<open>RemoveRunner\<close>.\<close>

definition unregisterRunner ::
  "env \<Rightarrow> Scope \<Rightarrow> string \<Rightarrow> int option \<Rightarrow> history \<Rightarrow> (bool \<times> error option) \<times> history" where
  "unregisterRunner E sc name rid h =
     (let (found, h1) =
        (case rid of
           Some i \<Rightarrow> (Inr i, h)
         | None \<Rightarrow>
             (case getRunner E sc name h of
                ((runner, err), h0) \<Rightarrow>
                  (case err of
                     Some e \<Rightarrow> (Inl (False, Some e), h0)
                   | None \<Rightarrow>
                       (case runner of
                          None \<Rightarrow> (Inl (False, None), h0)
                        | Some r \<Rightarrow>
                            (case ID r of
                               None \<Rightarrow> (Inl (False, None), h0)
                             | Some i \<Rightarrow> (Inr i, h0))))))
      in case found of
           Inl ret \<Rightarrow> (ret, h1)
         | Inr i \<Rightarrow>
             (case call_RemoveRunner E sc i h1 of
                (Some err, h2) \<Rightarrow> ((False, Some err), h2)
              | (None, h2) \<Rightarrow> ((True, None), h2)))"

subsection \<open>The decision\<close>

definition requeueAfter :: "duration \<Rightarrow> Result" where
  "requeueAfter d = \<lparr>Requeue = False, RequeueAfter = d\<rparr>"

text \<open>\<^verbatim>\<open>ensureRunnerUnregistration\<close>. The first component of the value returned is the
  \<^verbatim>\<open>*ctrl.Result\<close>, the second the error. In the branch of an error response the runner that
  the second \<^verbatim>\<open>getRunner\<close> finds is only logged, and the error of that call is dropped
  (\<^verbatim>\<open>runner, _ := getRunner(...)\<close>).\<close>

definition ensureRunnerUnregistration ::
  "env \<Rightarrow> duration \<Rightarrow> duration \<Rightarrow> Scope \<Rightarrow> string \<Rightarrow> Pod option \<Rightarrow> history
     \<Rightarrow> (Result option \<times> error option) outcome \<times> history" where
  "ensureRunnerUnregistration E unregistrationTimeout retryDelay sc runner pod h =
     (case getAnnotation pod AnnotationKeyRunnerID of
        Panic \<Rightarrow> (Panic, h)
      | Return (idText, ok) \<Rightarrow>
          (case (if ok then (case ParseInt idText of Inl err \<Rightarrow> Inl err | Inr v \<Rightarrow> Inr (Some v))
                 else Inr None) of
             Inl err \<Rightarrow> (Return (Some emptyResult, Some err), h)
           | Inr runnerID \<Rightarrow>
               (case unregisterRunner E sc runner runnerID h of
                  ((ok, err), h1) \<Rightarrow>
                    (case err of
                       Some e \<Rightarrow>
                         if errors_Is_RateLimitError e
                         then (Return (Some (requeueAfter (retryDelayOnGitHubAPIRateLimitError E)),
                                 Some e), h1)
                         else
                           (case errors_As_ErrorResponse e of
                              Some StatusCode \<Rightarrow>
                                let code = runnerContainerExitCode E pod;
                                    ((found, dropped), h2) = getRunner E sc runner h1
                                in if StatusCode = 422 \<and> code \<noteq> None
                                   then (Return (None, None), h2)
                                   else (Return (Some emptyResult, Some e), h2)
                            | None \<Rightarrow> (Return (Some emptyResult, Some e), h1))
                     | None \<Rightarrow>
                         if ok then (Return (None, None), h1)
                         else
                           (case pod of
                              None \<Rightarrow> (Return (None, None), h1)
                            | Some p \<Rightarrow>
                                if annotationValue p AnnotationKeyUnregistrationCompleteTimestamp \<noteq> []
                                then (Return (None, None), h1)
                                else if runnerPodOrContainerIsStopped E pod
                                then (Return (None, None), h1)
                                else
                                  let ts = annotationValue p AnnotationKeyUnregistrationStartTimestamp
                                  in
                                    if ts \<noteq> [] then
                                      (case time_Parse_RFC3339 E ts of
                                         Inl perr \<Rightarrow>
                                           (Return (Some (requeueAfter retryDelay), Some perr), h1)
                                       | Inr t \<Rightarrow>
                                           let (r, h2) =
                                             time_Until E (time_Add t unregistrationTimeout) h1
                                           in if r > 0
                                              then (Return (Some (requeueAfter retryDelay), None), h2)
                                              else (Return (None, None), h2))
                                    else (Return (Some (requeueAfter retryDelay), None), h1))))))"

subsection \<open>The tick\<close>

text \<open>\<^verbatim>\<open>tickRunnerGracefulStop\<close>. The value returned is the pod, the \<^verbatim>\<open>*ctrl.Result\<close> and the
  error. The argument \<^verbatim>\<open>time.Now().Format(time.RFC3339)\<close> is evaluated before each
  \<^verbatim>\<open>annotatePodOnce\<close> is entered.\<close>

definition tickRunnerGracefulStop ::
  "env \<Rightarrow> duration \<Rightarrow> duration \<Rightarrow> Scope \<Rightarrow> string \<Rightarrow> Pod option \<Rightarrow> history
     \<Rightarrow> (Pod option \<times> Result option \<times> error option) outcome \<times> history" where
  "tickRunnerGracefulStop E unregistrationTimeout retryDelay sc runner pod h =
     (let (now1, h1) = call_Now E h in
      case annotatePodOnce E pod AnnotationKeyUnregistrationStartTimestamp
             (time_Format_RFC3339 E now1) h1 of
        (Panic, h2) \<Rightarrow> (Panic, h2)
      | (Return (pod1, Some err), h2) \<Rightarrow> (Return (None, Some emptyResult, Some err), h2)
      | (Return (pod1, None), h2) \<Rightarrow>
          (case ensureRunnerUnregistration E unregistrationTimeout retryDelay sc runner pod1 h2 of
             (Panic, h3) \<Rightarrow> (Panic, h3)
           | (Return (Some res, err), h3) \<Rightarrow> (Return (None, Some res, err), h3)
           | (Return (None, err), h3) \<Rightarrow>
               (let (now2, h4) = call_Now E h3 in
                case annotatePodOnce E pod1 AnnotationKeyUnregistrationCompleteTimestamp
                       (time_Format_RFC3339 E now2) h4 of
                  (Panic, h5) \<Rightarrow> (Panic, h5)
                | (Return (pod2, Some err2), h5) \<Rightarrow> (Return (None, Some emptyResult, Some err2), h5)
                | (Return (pod2, None), h5) \<Rightarrow> (Return (pod2, None, None), h5))))"

subsection \<open>Registration bookkeeping\<close>

definition Second :: duration where
  "Second = 1000000000"

text \<open>\<^verbatim>\<open>ensureRunnerPodRegistered\<close>. The \<^verbatim>\<open>getAnnotation\<close> of its first line runs before the
  disjunction is evaluated.\<close>

definition ensureRunnerPodRegistered ::
  "env \<Rightarrow> Scope \<Rightarrow> string \<Rightarrow> Pod option \<Rightarrow> history
     \<Rightarrow> (Pod option \<times> Result option \<times> error option) outcome \<times> history" where
  "ensureRunnerPodRegistered E sc runner pod h =
     (case getAnnotation pod AnnotationKeyRunnerID of
        Panic \<Rightarrow> (Panic, h)
      | Return (x, hasRunnerID) \<Rightarrow>
          if runnerPodOrContainerIsStopped E pod \<or> hasRunnerID then (Return (pod, None, None), h)
          else
            (case getRunner E sc runner h of
               ((r, err), h1) \<Rightarrow>
                 if err \<noteq> None then (Return (None, Some (requeueAfter (10 * Second)), err), h1)
                 else
                   (case r of
                      None \<Rightarrow> (Return (None, Some (requeueAfter (10 * Second)), err), h1)
                    | Some r1 \<Rightarrow>
                        (case ID r1 of
                           None \<Rightarrow> (Return (None, Some (requeueAfter (10 * Second)), err), h1)
                         | Some i \<Rightarrow>
                             (case annotatePodOnce E pod AnnotationKeyRunnerID (Sprintf_d i) h1 of
                                (Panic, h2) \<Rightarrow> (Panic, h2)
                              | (Return (updated, Some e), h2) \<Rightarrow>
                                  (Return (None, Some (requeueAfter (10 * Second)), Some e), h2)
                              | (Return (updated, None), h2) \<Rightarrow>
                                  (Return (updated, None, None), h2))))))"

subsection \<open>A sample environment\<close>

text \<open>The instants 2022-03-01T00:00:00Z and, ten minutes later, 2022-03-01T00:10:00Z.\<close>

definition exStart :: time where
  "exStart = 1646092800 * Second"

definition exNow :: time where
  "exNow = 1646093400 * Second"

definition Minute :: duration where
  "Minute = 60 * Second"

definition exScope :: Scope where
  "exScope = \<lparr>enterprise = [], organization = ''actions-runner-controller'',
              repository = ''mumoshu-actions-test''\<rparr>"

definition exRunner :: Runner where
  "exRunner = \<lparr>ID = Some 47, Name = Some ''example-runnerset-0''\<rparr>"

text \<open>An environment for the examples. Its clock stands at \<open>exNow\<close>, the one instant it
  formats; it reads the RFC3339 texts of the two instants above and rejects every other
  text; every patch succeeds and is answered with the object sent; the registry answers every list call with \<open>listed\<close> and every
  removal with \<open>removed\<close>. The exit code is that of the container named \<^verbatim>\<open>runner\<close>; the
  pod counts as stopped when its phase is \<^verbatim>\<open>Succeeded\<close> or \<^verbatim>\<open>Failed\<close>, or when it is
  \<^verbatim>\<open>Running\<close> and that container has an exit code. The backoff on a rate limit is
  \<open>limitDelay\<close>.\<close>

definition exExitCode :: "Pod option \<Rightarrow> int option" where
  "exExitCode pod =
     (case pod of
        None \<Rightarrow> None
      | Some p \<Rightarrow> (case map_of (ContainerStatuses p) ''runner'' of None \<Rightarrow> None | Some c \<Rightarrow> c))"

definition exStopped :: "Pod option \<Rightarrow> bool" where
  "exStopped pod =
     (case pod of
        None \<Rightarrow> False
      | Some p \<Rightarrow>
          Phase p = ''Succeeded'' \<or> Phase p = ''Failed''
          \<or> (Phase p = ''Running'' \<and> exExitCode pod \<noteq> None))"

definition exParse :: "string \<Rightarrow> error + time" where
  "exParse s =
     (if s = ''2022-03-01T00:00:00Z'' then Inr exStart
      else if s = ''2022-03-01T00:10:00Z'' then Inr exNow
      else Inl (ParseError s))"

definition exEnv :: "(error + Runner list) \<Rightarrow> error option \<Rightarrow> duration \<Rightarrow> env" where
  "exEnv listed removed limitDelay =
     \<lparr>time_Now = (\<lambda>h. exNow),
      time_Format_RFC3339 = (\<lambda>t. ''2022-03-01T00:10:00Z''),
      time_Parse_RFC3339 = exParse,
      client_Patch = (\<lambda>updated orig h. Inr updated),
      ListRunners = (\<lambda>sc h. listed),
      RemoveRunner = (\<lambda>sc i h. removed),
      runnerContainerExitCode = exExitCode,
      runnerPodOrContainerIsStopped = exStopped,
      retryDelayOnGitHubAPIRateLimitError = limitDelay\<rparr>"

text \<open>The same environment with a Kubernetes client whose patches fail.\<close>

definition exEnvPatchFails :: "(error + Runner list) \<Rightarrow> error option \<Rightarrow> duration \<Rightarrow> env" where
  "exEnvPatchFails listed removed limitDelay =
     (exEnv listed removed limitDelay)\<lparr>client_Patch := (\<lambda>updated orig h. Inl (OtherError ''conflict''))\<rparr>"

text \<open>A Kubernetes API server that stores one pod. The merge patch that \<^verbatim>\<open>client.MergeFrom\<close>
  makes holds the annotations that differ between \<open>orig\<close> and \<open>updated\<close> (\<open>Some None\<close> for a
  key to remove) and no resource version, so the server applies it to the pod it stores,
  whatever that pod is, and answers with the result. The pod stored after a history is the
  first pod with the patches of the history applied in turn.\<close>

definition mergeFrom :: "Pod \<Rightarrow> Pod \<Rightarrow> string \<Rightarrow> string option option" where
  "mergeFrom orig updated key =
     (if lookupAnnotation updated key = lookupAnnotation orig key then None
      else Some (lookupAnnotation updated key))"

definition applyPatch :: "Pod \<Rightarrow> (string \<Rightarrow> string option option) \<Rightarrow> Pod" where
  "applyPatch stored patch =
     stored\<lparr>Annotations :=
       Some (\<lambda>key. case patch key of None \<Rightarrow> lookupAnnotation stored key | Some change \<Rightarrow> change)\<rparr>"

fun storedAfter :: "Pod \<Rightarrow> history \<Rightarrow> Pod" where
  "storedAfter stored [] = stored"
| "storedAfter stored (EvPatch updated orig # h) =
     storedAfter (applyPatch stored (mergeFrom orig updated)) h"
| "storedAfter stored (ev # h) = storedAfter stored h"

definition exApiServer :: "Pod \<Rightarrow> Pod \<Rightarrow> Pod \<Rightarrow> history \<Rightarrow> error + Pod" where
  "exApiServer first updated orig h = Inr (applyPatch (storedAfter first h) (mergeFrom orig updated))"

definition exEnvServer :: "Pod \<Rightarrow> env" where
  "exEnvServer first = (exEnv (Inr []) None (30 * Second))\<lparr>client_Patch := exApiServer first\<rparr>"

text \<open>The pod that a call of \<open>annotatePodOnce\<close> returned.\<close>

definition returnedPod :: "(Pod option \<times> error option) outcome \<times> history \<Rightarrow> Pod option" where
  "returnedPod r = (case fst r of Panic \<Rightarrow> None | Return (pod, err) \<Rightarrow> pod)"

text \<open>The error of a call that the registry refused for its rate limit, as the GitHub client
  builds it from the response, and as \<^verbatim>\<open>RemoveRunner\<close> wraps it; and the error of a removal
  of a runner that the registry does not know.\<close>

definition exRateLimited :: error where
  "exRateLimited =
     Wrapped ''failed to remove runner''
       (RateLimitError \<lparr>Limit = 5000, Remaining = 0, Reset = Some (exNow + 30 * Minute)\<rparr>
          ''API rate limit exceeded'' (Some 403))"

definition exNotFound :: error where
  "exNotFound = Wrapped ''failed to remove runner'' (ErrorResponse 404)"

text \<open>Pods: a running pod with no annotation; the same once the unregistration has started;
  once it is complete; one whose runner container has exited with code 1; one with a runner
  id that is not a number; one with a start timestamp that is not RFC3339; one that carries
  the runner id 47 and has started the unregistration.\<close>

definition exPod :: Pod where
  "exPod = \<lparr>Annotations = None, Phase = ''Running'', ContainerStatuses = [(''runner'', None)]\<rparr>"

definition exPodStarted :: Pod where
  "exPodStarted = exPod\<lparr>Annotations :=
     Some [AnnotationKeyUnregistrationStartTimestamp \<mapsto> ''2022-03-01T00:00:00Z'']\<rparr>"

definition exPodCompleted :: Pod where
  "exPodCompleted = exPod\<lparr>Annotations :=
     Some [AnnotationKeyUnregistrationStartTimestamp \<mapsto> ''2022-03-01T00:00:00Z'',
           AnnotationKeyUnregistrationCompleteTimestamp \<mapsto> ''2022-03-01T00:10:00Z'']\<rparr>"

definition exPodExited :: Pod where
  "exPodExited = exPod\<lparr>ContainerStatuses := [(''runner'', Some 1)]\<rparr>"

definition exPodBadID :: Pod where
  "exPodBadID = exPod\<lparr>Annotations := Some [AnnotationKeyRunnerID \<mapsto> ''4x'']\<rparr>"

definition exPodBadStart :: Pod where
  "exPodBadStart = exPod\<lparr>Annotations :=
     Some [AnnotationKeyUnregistrationStartTimestamp \<mapsto> ''yesterday'']\<rparr>"

definition exPodRegistered :: Pod where
  "exPodRegistered = exPod\<lparr>Annotations :=
     Some [AnnotationKeyRunnerID \<mapsto> ''47'',
           AnnotationKeyUnregistrationStartTimestamp \<mapsto> ''2022-03-01T00:00:00Z'']\<rparr>"

section \<open>Properties\<close>

subsection \<open>Helper facts\<close>

lemmas key_defs = AnnotationKeyRunnerID_def AnnotationKeyUnregistrationStartTimestamp_def
  AnnotationKeyUnregistrationCompleteTimestamp_def

lemmas call_defs = call_Now_def call_Patch_def call_ListRunners_def call_RemoveRunner_def

lemmas ex_defs = exEnv_def exEnvPatchFails_def exParse_def exStopped_def exExitCode_def exPod_def
  exPodStarted_def exPodCompleted_def exPodExited_def exPodBadID_def exPodBadStart_def
  exPodRegistered_def exRunner_def exScope_def exStart_def exNow_def Minute_def Second_def

text \<open>An error chain holds a rate limit error or an error response, never both.\<close>

lemma errors_As_not_rate_limit:
  "errors_As_ErrorResponse e = Some c \<Longrightarrow> \<not> errors_Is_RateLimitError e"
  by (induction e) auto

text \<open>The saturation of \<^verbatim>\<open>Sub\<close> keeps the sign of the difference.\<close>

lemma time_Sub_pos: "0 < time_Sub t u \<longleftrightarrow> u < t"
  by (auto simp: time_Sub_def minDuration_def maxDuration_def)

lemma time_Until_eq:
  "time_Until E t h = (time_Sub t (time_Now E h), h @ [EvNow])"
  by (simp add: time_Until_def call_Now_def)

subsection \<open>The branches of the decision\<close>

text \<open>In each of the lemmas below the pod is not nil, its runner id annotation is absent
  (\<open>hasID\<close> false) or holds the number \<open>v\<close>, and the hypothesis on \<open>unregisterRunner\<close> is on
  the call that \<open>ensureRunnerUnregistration\<close> makes.\<close>

lemma ensure_bad_runner_id:
  assumes rid: "getAnnotation (Some p) AnnotationKeyRunnerID = Return (idText, True)"
      and bad: "ParseInt idText = Inl err"
  shows "ensureRunnerUnregistration E unregistrationTimeout retryDelay sc runner (Some p) h =
           (Return (Some emptyResult, Some err), h)"
  using assms by (simp add: ensureRunnerUnregistration_def)

lemma ensure_bad_timestamp:
  assumes rid: "getAnnotation (Some p) AnnotationKeyRunnerID = Return (idText, hasID)"
      and parsed: "hasID \<Longrightarrow> ParseInt idText = Inr v"
      and notfound: "unregisterRunner E sc runner (if hasID then Some v else None) h = ((False, None), h1)"
      and incomplete: "annotationValue p AnnotationKeyUnregistrationCompleteTimestamp = []"
      and running: "\<not> runnerPodOrContainerIsStopped E (Some p)"
      and started: "annotationValue p AnnotationKeyUnregistrationStartTimestamp = ts" "ts \<noteq> []"
      and bad: "time_Parse_RFC3339 E ts = Inl err"
  shows "ensureRunnerUnregistration E unregistrationTimeout retryDelay sc runner (Some p) h =
           (Return (Some (requeueAfter retryDelay), Some err), h1)"
  using assms by (cases hasID) (simp_all add: ensureRunnerUnregistration_def)

text \<open>With a nil pod the first statement, \<^verbatim>\<open>getAnnotation(pod, AnnotationKeyRunnerID)\<close>, panics:
  no later branch is reached.\<close>

lemma ensure_nil_pod:
  "ensureRunnerUnregistration E unregistrationTimeout retryDelay sc runner None h = (Panic, h)"
  by (simp add: ensureRunnerUnregistration_def getAnnotation_def)

text \<open>Facts of the sample environment that several examples use.\<close>

lemma ex_no_runner_id:
  "getAnnotation (Some exPod) AnnotationKeyRunnerID = Return ([], False)"
  "getAnnotation (Some exPodStarted) AnnotationKeyRunnerID = Return ([], False)"
  "getAnnotation (Some exPodCompleted) AnnotationKeyRunnerID = Return ([], False)"
  "getAnnotation (Some exPodExited) AnnotationKeyRunnerID = Return ([], False)"
  "getAnnotation (Some exPodBadStart) AnnotationKeyRunnerID = Return ([], False)"
  by (simp_all add: getAnnotation_def ex_defs key_defs)

lemma ex_unparsed: "False \<Longrightarrow> ParseInt [] = Inr 0"
  by simp

lemma ex_not_found:
  "unregisterRunner (exEnv (Inr []) removed d) exScope name (if False then Some 0 else None) [] =
     ((False, None), [EvListRunners exScope])"
  by (simp add: unregisterRunner_def getRunner_def call_defs exEnv_def)

lemma ex_remove_fails:
  "unregisterRunner (exEnv (Inr [exRunner]) (Some err) d) exScope ''example-runnerset-0''
       (if False then Some 0 else None) [] =
     ((False, Some err), [EvListRunners exScope, EvRemoveRunner exScope 47])"
  by (simp add: unregisterRunner_def getRunner_def call_defs exEnv_def exRunner_def GetName_def)

subsection \<open>Annotating once\<close>

lemma getAnnotation_setAnnotation_same:
  "getAnnotation (Some (setAnnotation p k v)) k = Return (v, True)"
  by (simp add: getAnnotation_def setAnnotation_def)

lemma getAnnotation_pod: "\<exists>x ok. getAnnotation (Some p) k = Return (x, ok)"
  by (auto simp: getAnnotation_def split: option.splits)

lemma getAnnotation_absent:
  "getAnnotation (Some p) k = Return (x, False) \<Longrightarrow> x = [] \<and> lookupAnnotation p k = None"
  by (auto simp: getAnnotation_def lookupAnnotation_def split: option.splits)

lemma annotate_present:
  "getAnnotation (Some p) k = Return (x, True) \<Longrightarrow>
     annotatePodOnce E (Some p) k v h = (Return (Some p, None), h)"
  by (simp add: annotatePodOnce_def)

lemma annotate_absent:
  "getAnnotation (Some p) k = Return (x, False) \<Longrightarrow>
     annotatePodOnce E (Some p) k v h =
       (case client_Patch E (setAnnotation p k v) p h of
          Inl e \<Rightarrow> (Return (None, Some e), h @ [EvPatch (setAnnotation p k v) p])
        | Inr answered \<Rightarrow> (Return (Some answered, None), h @ [EvPatch (setAnnotation p k v) p]))"
  by (simp add: annotatePodOnce_def call_Patch_def Let_def split: sum.splits)

lemma annotate_nil: "annotatePodOnce E None k v h = (Return (None, None), h)"
  by (simp add: annotatePodOnce_def)

text \<open>The patch that \<open>annotatePodOnce\<close> sends adds the key and nothing else.\<close>

lemma setAnnotation_adds:
  "getAnnotation (Some p) k = Return (x, False) \<Longrightarrow>
     addsAnnotation k (EvPatch (setAnnotation p k v) p)"
  by (auto simp: addsAnnotation_def setAnnotation_def lookupAnnotation_def getAnnotation_def
      split: option.splits)

text \<open>What \<open>annotatePodOnce\<close> appends to the history: nothing, or one patch that adds the key.\<close>

lemma annotate_patch_only:
  "snd (annotatePodOnce E pod k v h) = h
   \<or> (\<exists>p. pod = Some p \<and> getAnnotation (Some p) k = Return ([], False)
         \<and> snd (annotatePodOnce E pod k v h) = h @ [EvPatch (setAnnotation p k v) p])"
proof (cases pod)
  case None
  then show ?thesis by (simp add: annotate_nil)
next
  case (Some p)
  obtain x ok where g: "getAnnotation (Some p) k = Return (x, ok)"
    using getAnnotation_pod by blast
  show ?thesis
  proof (cases ok)
    case True
    with Some g show ?thesis by (simp add: annotate_present)
  next
    case False
    with g have "x = []" using getAnnotation_absent [of p k x] by simp
    with Some g False show ?thesis
      by (simp add: annotate_absent split: sum.splits)
  qed
qed

lemma annotate_appends:
  "\<exists>es. snd (annotatePodOnce E pod k v h) = h @ es \<and> (\<forall>ev \<in> set es. addsAnnotation k ev)
        \<and> calls isPatch es \<le> 1 \<and> calls isRemoveRunner es = 0 \<and> calls isListRunners es = 0
        \<and> calls isNow es = 0"
  using annotate_patch_only [of E pod k v h]
  by (auto simp: calls_def setAnnotation_adds)

subsection \<open>Histories\<close>

lemma calls_simps [simp]:
  "calls P [] = 0"
  "calls P (e # es) = (if P e then Suc (calls P es) else calls P es)"
  "calls P (es @ fs) = calls P es + calls P fs"
  by (simp_all add: calls_def)

lemma annotate_history:
  "\<exists>es. snd (annotatePodOnce E pod k v h) = h @ es \<and> calls isPatch es \<le> 1
        \<and> calls isRemoveRunner es = 0 \<and> calls isListRunners es = 0 \<and> calls isNow es = 0"
  using annotate_appends [of E pod k v h] by blast

lemma getRunner_history: "snd (getRunner E sc name h) = h @ [EvListRunners sc]"
  by (simp add: getRunner_def call_ListRunners_def split: sum.splits)

lemma unregister_history:
  "\<exists>es. snd (unregisterRunner E sc name rid h) = h @ es \<and> calls isPatch es = 0
        \<and> calls isRemoveRunner es \<le> 1 \<and> calls isListRunners es \<le> 1 \<and> calls isNow es = 0"
proof (cases rid)
  case (Some i)
  then show ?thesis
    by (simp add: unregisterRunner_def call_RemoveRunner_def split: option.splits)
next
  case None
  obtain r err h0 where g: "getRunner E sc name h = ((r, err), h0)"
    by (metis surj_pair)
  with getRunner_history [of E sc name h] have h0: "h0 = h @ [EvListRunners sc]"
    by simp
  show ?thesis
    using None g h0
    by (simp add: unregisterRunner_def call_RemoveRunner_def split: option.splits)
qed

lemma getRunner_eq:
  "getRunner E sc name h =
     ((case ListRunners E sc h of
         Inl err \<Rightarrow> (None, Some err)
       | Inr runners \<Rightarrow> (find (\<lambda>runner. GetName runner = name) runners, None)),
      h @ [EvListRunners sc])"
  by (simp add: getRunner_def call_ListRunners_def split: sum.splits)

lemma ensure_history:
  "\<exists>es. snd (ensureRunnerUnregistration E T d sc runner pod h) = h @ es \<and> calls isPatch es = 0
        \<and> calls isRemoveRunner es \<le> 1 \<and> calls isListRunners es \<le> 2 \<and> calls isNow es \<le> 1"
proof (cases "getAnnotation pod AnnotationKeyRunnerID")
  case Panic
  then show ?thesis by (simp add: ensureRunnerUnregistration_def)
next
  case (Return a)
  obtain idText hasID where a: "a = (idText, hasID)" by (cases a)
  let ?rid = "if hasID then (case ParseInt idText of Inl err \<Rightarrow> Inl err | Inr v \<Rightarrow> Inr (Some v))
              else Inr None"
  show ?thesis
  proof (cases ?rid)
    case (Inl err)
    with Return a show ?thesis by (simp add: ensureRunnerUnregistration_def)
  next
    case (Inr runnerID)
    obtain ok err h1 where u: "unregisterRunner E sc runner runnerID h = ((ok, err), h1)"
      by (metis surj_pair)
    from unregister_history [of E sc runner runnerID h] u
    obtain es where es: "h1 = h @ es" "calls isPatch es = 0" "calls isRemoveRunner es \<le> 1"
      "calls isListRunners es \<le> 1" "calls isNow es = 0"
      by auto
    have "snd (ensureRunnerUnregistration E T d sc runner pod h)
            \<in> {h1, h1 @ [EvListRunners sc], h1 @ [EvNow]}"
      using Return a Inr u
      by (simp add: ensureRunnerUnregistration_def time_Until_eq getRunner_eq Let_def
          split: option.splits sum.splits prod.splits)
    with es show ?thesis
      by auto
  qed
qed

lemma calls_total:
  "length es = calls isPatch es + calls isRemoveRunner es + calls isListRunners es + calls isNow es"
proof (induction es)
  case Nil
  show ?case by simp
next
  case (Cons e es)
  then show ?case by (cases e) simp_all
qed

subsection \<open>Where an error goes\<close>

lemma tick_first_patch_error:
  assumes "annotatePodOnce E pod AnnotationKeyUnregistrationStartTimestamp
             (time_Format_RFC3339 E (time_Now E h)) (h @ [EvNow]) = (Return (pod1, Some e), h2)"
  shows "tickRunnerGracefulStop E T d sc r pod h = (Return (None, Some emptyResult, Some e), h2)"
  using assms by (simp add: tickRunnerGracefulStop_def call_Now_def)

lemma tick_retry:
  assumes "annotatePodOnce E pod AnnotationKeyUnregistrationStartTimestamp
             (time_Format_RFC3339 E (time_Now E h)) (h @ [EvNow]) = (Return (pod1, None), h2)"
      and "ensureRunnerUnregistration E T d sc r pod1 h2 = (Return (Some res, err), h3)"
  shows "tickRunnerGracefulStop E T d sc r pod h = (Return (None, Some res, err), h3)"
  using assms by (simp add: tickRunnerGracefulStop_def call_Now_def)

lemma tick_second_patch_error:
  assumes "annotatePodOnce E pod AnnotationKeyUnregistrationStartTimestamp
             (time_Format_RFC3339 E (time_Now E h)) (h @ [EvNow]) = (Return (pod1, None), h2)"
      and "ensureRunnerUnregistration E T d sc r pod1 h2 = (Return (None, err), h3)"
      and "annotatePodOnce E pod1 AnnotationKeyUnregistrationCompleteTimestamp
             (time_Format_RFC3339 E (time_Now E h3)) (h3 @ [EvNow]) = (Return (pod2, Some e), h5)"
  shows "tickRunnerGracefulStop E T d sc r pod h = (Return (None, Some emptyResult, Some e), h5)"
  using assms by (simp add: tickRunnerGracefulStop_def call_Now_def)

lemma ensure_nil_directive:
  assumes "ensureRunnerUnregistration E T d sc r pod h = (Return (None, err), h')"
  shows "err = None"
  using assms
  by (simp add: ensureRunnerUnregistration_def time_Until_eq getRunner_eq Let_def
      split: outcome.splits option.splits sum.splits prod.splits if_splits)

lemma ensure_error:
  assumes rid: "getAnnotation (Some p) AnnotationKeyRunnerID = Return (idText, hasID)"
      and parsed: "hasID \<longrightarrow> ParseInt idText = Inr v"
      and failed: "unregisterRunner E sc runner (if hasID then Some v else None) h = ((ok, Some e), h1)"
  shows "ensureRunnerUnregistration E T d sc runner (Some p) h =
           (if errors_Is_RateLimitError e
            then (Return (Some (requeueAfter (retryDelayOnGitHubAPIRateLimitError E)), Some e), h1)
            else
              (case errors_As_ErrorResponse e of
                 None \<Rightarrow> (Return (Some emptyResult, Some e), h1)
               | Some StatusCode \<Rightarrow>
                   if StatusCode = 422 \<and> runnerContainerExitCode E (Some p) \<noteq> None
                   then (Return (None, None), h1 @ [EvListRunners sc])
                   else (Return (Some emptyResult, Some e), h1 @ [EvListRunners sc])))"
  using assms
  by (cases hasID) (simp_all add: ensureRunnerUnregistration_def getRunner_eq split: option.splits)

lemma unregister_list_error:
  "ListRunners E sc h = Inl e \<Longrightarrow>
     unregisterRunner E sc name None h = ((False, Some e), h @ [EvListRunners sc])"
  by (simp add: unregisterRunner_def getRunner_eq)

lemma unregister_remove_error:
  "RemoveRunner E sc i h = Some e \<Longrightarrow>
     unregisterRunner E sc name (Some i) h = ((False, Some e), h @ [EvRemoveRunner sc i])"
  by (simp add: unregisterRunner_def call_RemoveRunner_def)

lemma unregister_found_remove_error:
  "ListRunners E sc h = Inr runners \<Longrightarrow> find (\<lambda>runner. GetName runner = name) runners = Some r \<Longrightarrow>
   ID r = Some i \<Longrightarrow> RemoveRunner E sc i (h @ [EvListRunners sc]) = Some e \<Longrightarrow>
     unregisterRunner E sc name None h =
       ((False, Some e), h @ [EvListRunners sc, EvRemoveRunner sc i])"
  by (simp add: unregisterRunner_def getRunner_eq call_RemoveRunner_def)


lemma annotate_patch_error:
  "getAnnotation (Some p) k = Return (x, False) \<Longrightarrow> client_Patch E (setAnnotation p k v) p h = Inl e \<Longrightarrow>
     annotatePodOnce E (Some p) k v h = (Return (None, Some e), h @ [EvPatch (setAnnotation p k v) p])"
  by (simp add: annotate_absent)


subsection \<open>The patches of a tick\<close>

lemma no_patch_adds: "\<not> isPatch ev \<Longrightarrow> addsAnnotation k ev"
  by (cases ev) (simp_all add: addsAnnotation_def)

lemma calls_none: "calls P es = 0 \<Longrightarrow> ev \<in> set es \<Longrightarrow> \<not> P ev"
  by (induction es) (auto split: if_splits)

lemma tick_appends:
  "\<forall>ev \<in> set (drop (length h) (snd (tickRunnerGracefulStop E T d sc r pod h))).
     addsAnnotation AnnotationKeyUnregistrationStartTimestamp ev
     \<or> addsAnnotation AnnotationKeyUnregistrationCompleteTimestamp ev"
proof -
  let ?S = AnnotationKeyUnregistrationStartTimestamp
  let ?C = AnnotationKeyUnregistrationCompleteTimestamp
  let ?a1 = "annotatePodOnce E pod ?S (time_Format_RFC3339 E (time_Now E h)) (h @ [EvNow])"
  obtain o1 h2 where a1: "?a1 = (o1, h2)" by (cases ?a1)
  from annotate_appends [of E pod ?S "time_Format_RFC3339 E (time_Now E h)" "h @ [EvNow]"] a1
  obtain es1 where es1: "h2 = h @ [EvNow] @ es1" "\<forall>ev \<in> set es1. addsAnnotation ?S ev"
    by auto
  show ?thesis
  proof (cases o1)
    case Panic
    with a1 es1 show ?thesis
      by (auto simp: tickRunnerGracefulStop_def call_Now_def addsAnnotation_def)
  next
    case (Return a)
    obtain pod1 err1 where a: "a = (pod1, err1)" by (cases a)
    let ?e = "ensureRunnerUnregistration E T d sc r pod1 h2"
    obtain o2 h3 where e: "?e = (o2, h3)" by (cases ?e)
    from ensure_history [of E T d sc r pod1 h2] e
    obtain es2 where es2: "h3 = h2 @ es2" "calls isPatch es2 = 0"
      by auto
    let ?a2 = "annotatePodOnce E pod1 ?C (time_Format_RFC3339 E (time_Now E h3)) (h3 @ [EvNow])"
    obtain o3 h5 where a2: "?a2 = (o3, h5)" by (cases ?a2)
    from annotate_appends [of E pod1 ?C "time_Format_RFC3339 E (time_Now E h3)" "h3 @ [EvNow]"] a2
    obtain es3 where es3: "h5 = h3 @ [EvNow] @ es3" "\<forall>ev \<in> set es3. addsAnnotation ?C ev"
      by auto
    have now: "addsAnnotation ?S EvNow"
      by (simp add: addsAnnotation_def)
    have quiet: "\<forall>ev \<in> set es2. addsAnnotation ?S ev"
      using es2(2) calls_none no_patch_adds by blast
    have "snd (tickRunnerGracefulStop E T d sc r pod h) \<in> {h2, h3, h5}"
      using a1 Return a e a2
      by (simp add: tickRunnerGracefulStop_def call_Now_def split: outcome.splits option.splits
          prod.splits)
    with es1 es2(1) es3 now quiet show ?thesis
      by auto
  qed
qed

lemma registered_appends:
  "\<forall>ev \<in> set (drop (length h) (snd (ensureRunnerPodRegistered E sc r pod h))).
     addsAnnotation AnnotationKeyRunnerID ev"
proof -
  let ?K = AnnotationKeyRunnerID
  have list: "addsAnnotation ?K (EvListRunners sc)"
    by (simp add: addsAnnotation_def)
  have after: "addsAnnotation ?K ev"
    if "annotatePodOnce E pod ?K v (h @ [EvListRunners sc]) = (res, h')"
      and "ev \<in> set (drop (length h) h')" for v res h' ev
    using annotate_appends [of E pod ?K v "h @ [EvListRunners sc]"] list that by auto
  show ?thesis
    by (auto simp: ensureRunnerPodRegistered_def getRunner_eq list
        split: outcome.splits option.splits sum.splits prod.splits dest: after)
qed

subsection \<open>Removal by id, and the test for a rate limit\<close>

text \<open>With a runner id, \<open>unregisterRunner\<close> never reports not-found: the removal succeeds or
  its error is returned.\<close>

lemma unregister_by_id:
  "unregisterRunner E sc name (Some i) h \<noteq> ((False, None), h1)"
  by (simp add: unregisterRunner_def call_RemoveRunner_def split: option.splits)

text \<open>The grace period, for a pod without runner id.\<close>

lemma ensure_grace_period:
  assumes rid: "getAnnotation (Some p) AnnotationKeyRunnerID = Return ([], False)"
      and notfound: "unregisterRunner E sc runner None h = ((False, None), h1)"
      and incomplete: "annotationValue p AnnotationKeyUnregistrationCompleteTimestamp = []"
      and running: "\<not> runnerPodOrContainerIsStopped E (Some p)"
      and started: "annotationValue p AnnotationKeyUnregistrationStartTimestamp = ts" "ts \<noteq> []"
      and t: "time_Parse_RFC3339 E ts = Inr t"
  shows "ensureRunnerUnregistration E unregistrationTimeout retryDelay sc runner (Some p) h =
           (if time_Now E h1 < t + unregistrationTimeout
            then (Return (Some (requeueAfter retryDelay), None), h1 @ [EvNow])
            else (Return (None, None), h1 @ [EvNow]))"
  using assms
  by (simp add: ensureRunnerUnregistration_def time_Until_eq time_Sub_pos time_Add_def)

text \<open>A rate limit error that carries a response is not accepted by the test of line 86; the
  zero value is.\<close>

lemma rate_limit_with_response:
  "\<not> errors_Is_RateLimitError (RateLimitError rate message (Some code))"
  by simp

lemma rate_limit_zero: "errors_Is_RateLimitError (RateLimitError zeroRate [] None)"
  by simp

subsection \<open>Runs in the sample environment\<close>

lemma ex_no_timestamps:
  "getAnnotation (Some exPod) AnnotationKeyUnregistrationStartTimestamp = Return ([], False)"
  "getAnnotation (Some exPodExited) AnnotationKeyUnregistrationStartTimestamp = Return ([], False)"
  "getAnnotation (Some (setAnnotation exPodExited AnnotationKeyUnregistrationStartTimestamp v))
     AnnotationKeyUnregistrationCompleteTimestamp = Return ([], False)"
  "getAnnotation (Some (setAnnotation exPodExited AnnotationKeyUnregistrationStartTimestamp v))
     AnnotationKeyRunnerID = Return ([], False)"
  by (simp_all add: getAnnotation_def setAnnotation_def ex_defs key_defs)

lemma ex_tick_conflict:
  "tickRunnerGracefulStop
       (exEnv (Inr [exRunner]) (Some (Wrapped ''failed to remove runner'' (ErrorResponse 422))) (30 * Second))
       (5 * Minute) (10 * Second) exScope ''example-runnerset-0'' (Some exPodExited) [] =
     (Return (Some (setAnnotation
                (setAnnotation exPodExited AnnotationKeyUnregistrationStartTimestamp ''2022-03-01T00:10:00Z'')
                AnnotationKeyUnregistrationCompleteTimestamp ''2022-03-01T00:10:00Z''), None, None),
      [EvNow,
       EvPatch (setAnnotation exPodExited AnnotationKeyUnregistrationStartTimestamp ''2022-03-01T00:10:00Z'')
         exPodExited,
       EvListRunners exScope, EvRemoveRunner exScope 47, EvListRunners exScope, EvNow,
       EvPatch (setAnnotation
                (setAnnotation exPodExited AnnotationKeyUnregistrationStartTimestamp ''2022-03-01T00:10:00Z'')
                AnnotationKeyUnregistrationCompleteTimestamp ''2022-03-01T00:10:00Z'')
         (setAnnotation exPodExited AnnotationKeyUnregistrationStartTimestamp ''2022-03-01T00:10:00Z'')])"
proof -
  let ?err = "Wrapped ''failed to remove runner'' (ErrorResponse 422)"
  let ?E = "exEnv (Inr [exRunner]) (Some ?err) (30 * Second)"
  let ?p1 = "setAnnotation exPodExited AnnotationKeyUnregistrationStartTimestamp ''2022-03-01T00:10:00Z''"
  have env: "time_Now ?E = (\<lambda>h. exNow)" "time_Format_RFC3339 ?E = (\<lambda>t. ''2022-03-01T00:10:00Z'')"
    "client_Patch ?E = (\<lambda>updated orig h. Inr updated)"
    by (simp_all add: exEnv_def)
  have a1: "annotatePodOnce ?E (Some exPodExited) AnnotationKeyUnregistrationStartTimestamp
      ''2022-03-01T00:10:00Z'' [EvNow] = (Return (Some ?p1, None), [EvNow, EvPatch ?p1 exPodExited])"
    by (simp add: annotate_absent [OF ex_no_timestamps(2)] env)
  have u: "unregisterRunner ?E exScope ''example-runnerset-0'' (if False then Some 0 else None)
      [EvNow, EvPatch ?p1 exPodExited] =
     ((False, Some ?err), [EvNow, EvPatch ?p1 exPodExited, EvListRunners exScope, EvRemoveRunner exScope 47])"
    by (simp add: unregisterRunner_def getRunner_def call_defs exEnv_def exRunner_def GetName_def)
  have code: "runnerContainerExitCode ?E (Some ?p1) \<noteq> None"
    by (simp add: ex_defs setAnnotation_def)
  have e: "ensureRunnerUnregistration ?E (5 * Minute) (10 * Second) exScope ''example-runnerset-0''
      (Some ?p1) [EvNow, EvPatch ?p1 exPodExited] =
      (Return (None, None), [EvNow, EvPatch ?p1 exPodExited, EvListRunners exScope,
         EvRemoveRunner exScope 47, EvListRunners exScope])"
    using ensure_error [OF ex_no_timestamps(4) _ u] code
    by simp
  have a2: "annotatePodOnce ?E (Some ?p1) AnnotationKeyUnregistrationCompleteTimestamp
      ''2022-03-01T00:10:00Z'' (hh @ [EvNow]) =
      (Return (Some (setAnnotation ?p1 AnnotationKeyUnregistrationCompleteTimestamp ''2022-03-01T00:10:00Z''), None),
       hh @ [EvNow, EvPatch (setAnnotation ?p1 AnnotationKeyUnregistrationCompleteTimestamp ''2022-03-01T00:10:00Z'') ?p1])"
    for hh
    by (simp add: annotate_absent [OF ex_no_timestamps(3)] env)
  show ?thesis
    using a2 [of "[EvNow, EvPatch ?p1 exPodExited, EvListRunners exScope,
         EvRemoveRunner exScope 47, EvListRunners exScope]"]
    by (simp add: tickRunnerGracefulStop_def call_Now_def env a1 e)
qed


subsection \<open>The claims\<close>

text \<open>C1, grace period convergence. The claim is for every pod that is not nil, has a start
  timestamp \<open>t\<close> and whose removal reports not-found: a retry after \<open>retryDelay\<close> while
  \<open>now < t + unregistrationTimeout\<close>, safe to delete from then on. The code does this for a
  pod without runner id (\<open>ensure_grace_period\<close>). For a pod that carries a runner id it does
  not: \<open>unregisterRunner\<close> then removes by id and returns the 404 of the registry as an
  error (\<open>unregister_by_id\<close>), so the grace period branch is not reached. Below the pod
  carries the runner id 47 and a start timestamp ten minutes old, the registry does not
  know the runner, and the decision is the empty directive with the error, under a timeout
  of fifteen minutes (where the claim has a retry after ten seconds, no error) and under a
  timeout of five minutes (where the claim has safe to delete).\<close>

theorem grace_period_skipped_with_runner_id:
  "getAnnotation (Some exPodRegistered) AnnotationKeyRunnerID = Return (''47'', True)
   \<and> annotationValue exPodRegistered AnnotationKeyUnregistrationStartTimestamp =
       ''2022-03-01T00:00:00Z''
   \<and> ensureRunnerUnregistration (exEnv (Inr []) (Some exNotFound) (30 * Second))
       (15 * Minute) (10 * Second) exScope ''example-runnerset-0'' (Some exPodRegistered) [] =
     (Return (Some emptyResult, Some exNotFound), [EvRemoveRunner exScope 47, EvListRunners exScope])
   \<and> ensureRunnerUnregistration (exEnv (Inr []) (Some exNotFound) (30 * Second))
       (5 * Minute) (10 * Second) exScope ''example-runnerset-0'' (Some exPodRegistered) [] =
     (Return (Some emptyResult, Some exNotFound), [EvRemoveRunner exScope 47, EvListRunners exScope])"
proof -
  let ?E = "exEnv (Inr []) (Some exNotFound) (30 * Second)"
  have a: "getAnnotation (Some exPodRegistered) AnnotationKeyRunnerID = Return (''47'', True)"
    by (simp add: getAnnotation_def exPodRegistered_def key_defs)
  have b: "annotationValue exPodRegistered AnnotationKeyUnregistrationStartTimestamp =
       ''2022-03-01T00:00:00Z''"
    by (simp add: annotationValue_def exPodRegistered_def key_defs)
  have n: "True \<longrightarrow> ParseInt ''47'' = Inr 47"
    by (simp add: ParseInt_def ParseUint_def digitVal_def)
  have u: "unregisterRunner ?E exScope ''example-runnerset-0'' (if True then Some 47 else None) [] =
      ((False, Some exNotFound), [EvRemoveRunner exScope 47])"
    by (simp add: unregisterRunner_def call_RemoveRunner_def exEnv_def)
  have c: "ensureRunnerUnregistration ?E T (10 * Second) exScope ''example-runnerset-0''
      (Some exPodRegistered) [] =
      (Return (Some emptyResult, Some exNotFound), [EvRemoveRunner exScope 47, EvListRunners exScope])"
    for T
    using ensure_error [OF a n u] by (simp add: exNotFound_def)
  from a b c show ?thesis by simp
qed

text \<open>C2, already confirmed short circuit. As stated (safe to delete whatever the registry
  answers) the claim fails: the error of the removal is examined before any annotation. The
  pod below carries the complete timestamp, the removal is refused for the rate limit, and
  the decision is the empty directive with the error.\<close>

theorem already_confirmed_counterexample:
  "getAnnotation (Some exPodCompleted) AnnotationKeyUnregistrationCompleteTimestamp =
     Return (''2022-03-01T00:10:00Z'', True)
   \<and> ensureRunnerUnregistration (exEnv (Inr [exRunner]) (Some exRateLimited) (30 * Second))
       (5 * Minute) (10 * Second) exScope ''example-runnerset-0'' (Some exPodCompleted) [] =
     (Return (Some emptyResult, Some exRateLimited),
      [EvListRunners exScope, EvRemoveRunner exScope 47])"
proof -
  have "getAnnotation (Some exPodCompleted) AnnotationKeyUnregistrationCompleteTimestamp =
     Return (''2022-03-01T00:10:00Z'', True)"
    by (simp add: getAnnotation_def exPodCompleted_def key_defs)
  moreover have "ensureRunnerUnregistration (exEnv (Inr [exRunner]) (Some exRateLimited) (30 * Second))
       (5 * Minute) (10 * Second) exScope ''example-runnerset-0'' (Some exPodCompleted) [] =
     (Return (Some emptyResult, Some exRateLimited),
      [EvListRunners exScope, EvRemoveRunner exScope 47])"
    using ensure_error [OF ex_no_runner_id(3) _ ex_remove_fails]
    by (simp add: exRateLimited_def)
  ultimately show ?thesis by simp
qed

text \<open>C2 as amended: a pod whose complete timestamp annotation is not empty is safe to delete
  (nil directive, nil error) whenever \<open>unregisterRunner\<close> returns no error, that is when the
  runner was removed or was not found.\<close>

theorem already_confirmed_short_circuit:
  assumes rid: "getAnnotation (Some p) AnnotationKeyRunnerID = Return (idText, hasID)"
      and parsed: "hasID \<Longrightarrow> ParseInt idText = Inr v"
      and answered: "unregisterRunner E sc runner (if hasID then Some v else None) h = ((ok, None), h1)"
      and complete: "annotationValue p AnnotationKeyUnregistrationCompleteTimestamp \<noteq> []"
  shows "ensureRunnerUnregistration E unregistrationTimeout retryDelay sc runner (Some p) h =
           (Return (None, None), h1)"
proof (cases hasID)
  case True
  with assms show ?thesis
    by (cases ok) (simp_all add: ensureRunnerUnregistration_def)
next
  case False
  with assms show ?thesis
    by (cases ok) (simp_all add: ensureRunnerUnregistration_def)
qed

theorem already_confirmed_short_circuit_witness:
  "ensureRunnerUnregistration (exEnv (Inr []) None (30 * Second)) (15 * Minute) (10 * Second)
       exScope ''example-runnerset-0'' (Some exPodCompleted) [] =
     (Return (None, None), [EvListRunners exScope])"
proof -
  have c: "annotationValue exPodCompleted AnnotationKeyUnregistrationCompleteTimestamp \<noteq> []"
    by (simp add: annotationValue_def exPodCompleted_def key_defs)
  show ?thesis
    using already_confirmed_short_circuit [OF ex_no_runner_id(3) ex_unparsed ex_not_found c] .
qed

text \<open>C3, inference from a 422. The pod is not nil and \<open>unregisterRunner\<close> fails with an
  error whose chain holds an error response of status 422. If the runner container has an
  exit code the decision is safe to delete (nil directive, nil error); if it has none the
  decision is the empty directive together with the error. In both cases the registry is
  listed once more, for the log.\<close>

theorem conflict_inference:
  assumes rid: "getAnnotation (Some p) AnnotationKeyRunnerID = Return (idText, hasID)"
      and parsed: "hasID \<Longrightarrow> ParseInt idText = Inr v"
      and failed: "unregisterRunner E sc runner (if hasID then Some v else None) h = ((ok, Some err), h1)"
      and conflict: "errors_As_ErrorResponse err = Some 422"
  shows "ensureRunnerUnregistration E unregistrationTimeout retryDelay sc runner (Some p) h =
           (if runnerContainerExitCode E (Some p) \<noteq> None
            then (Return (None, None), snd (getRunner E sc runner h1))
            else (Return (Some emptyResult, Some err), snd (getRunner E sc runner h1)))"
proof -
  from conflict have "\<not> errors_Is_RateLimitError err"
    by (rule errors_As_not_rate_limit)
  with assms show ?thesis
    by (cases hasID) (simp_all add: ensureRunnerUnregistration_def getRunner_eq)
qed

text \<open>The removal fails with a 422: the pod whose container exited with code 1 is safe to
  delete, the pod whose container still runs gets the empty directive and the error.\<close>

theorem conflict_inference_witness:
  "ensureRunnerUnregistration
       (exEnv (Inr [exRunner]) (Some (Wrapped ''failed to remove runner'' (ErrorResponse 422))) (30 * Second))
       (5 * Minute) (10 * Second) exScope ''example-runnerset-0'' (Some exPodExited) [] =
     (Return (None, None), [EvListRunners exScope, EvRemoveRunner exScope 47, EvListRunners exScope])
   \<and> ensureRunnerUnregistration
       (exEnv (Inr [exRunner]) (Some (Wrapped ''failed to remove runner'' (ErrorResponse 422))) (30 * Second))
       (5 * Minute) (10 * Second) exScope ''example-runnerset-0'' (Some exPod) [] =
     (Return (Some emptyResult, Some (Wrapped ''failed to remove runner'' (ErrorResponse 422))),
      [EvListRunners exScope, EvRemoveRunner exScope 47, EvListRunners exScope])"
proof -
  let ?err = "Wrapped ''failed to remove runner'' (ErrorResponse 422)"
  let ?E = "exEnv (Inr [exRunner]) (Some ?err) (30 * Second)"
  have c: "errors_As_ErrorResponse ?err = Some 422"
    by simp
  have exited: "runnerContainerExitCode ?E (Some exPodExited) \<noteq> None"
    and running: "runnerContainerExitCode ?E (Some exPod) = None"
    by (simp_all add: ex_defs)
  have again: "snd (getRunner ?E exScope ''example-runnerset-0''
                 [EvListRunners exScope, EvRemoveRunner exScope 47]) =
               [EvListRunners exScope, EvRemoveRunner exScope 47, EvListRunners exScope]"
    by (simp add: getRunner_def call_defs exEnv_def)
  show ?thesis
    using conflict_inference [OF ex_no_runner_id(4) ex_unparsed ex_remove_fails c]
      conflict_inference [OF ex_no_runner_id(1) ex_unparsed ex_remove_fails c]
    by (simp add: exited running again)
qed

text \<open>C4, the backoff on a rate limit. The claim is that a removal that fails with a rate
  limit error gets the directive whose delay is \<^verbatim>\<open>retryDelayOnGitHubAPIRateLimitError\<close>, and
  lines 86 to 98 are there for it. The test of line 86 compares the error with a rate limit
  error made on the spot, which only an error without rate, message and response equals
  (\<open>rate_limit_zero\<close>, \<open>rate_limit_with_response\<close>). Below the removal fails with the error
  the GitHub client builds from a 403 over the rate limit: the test refuses it and the
  decision is the empty directive with the error, not the backoff of thirty seconds.\<close>

theorem rate_limit_backoff_missed:
  "\<not> errors_Is_RateLimitError exRateLimited
   \<and> retryDelayOnGitHubAPIRateLimitError (exEnv (Inr [exRunner]) (Some exRateLimited) (30 * Second)) =
       30 * Second
   \<and> ensureRunnerUnregistration (exEnv (Inr [exRunner]) (Some exRateLimited) (30 * Second))
       (5 * Minute) (10 * Second) exScope ''example-runnerset-0'' (Some exPod) [] =
     (Return (Some emptyResult, Some exRateLimited),
      [EvListRunners exScope, EvRemoveRunner exScope 47])
   \<and> emptyResult \<noteq> requeueAfter (30 * Second)"
proof -
  have "ensureRunnerUnregistration (exEnv (Inr [exRunner]) (Some exRateLimited) (30 * Second))
       (5 * Minute) (10 * Second) exScope ''example-runnerset-0'' (Some exPod) [] =
     (Return (Some emptyResult, Some exRateLimited),
      [EvListRunners exScope, EvRemoveRunner exScope 47])"
    using ensure_error [OF ex_no_runner_id(1) _ ex_remove_fails]
    by (simp add: exRateLimited_def)
  then show ?thesis
    by (simp add: exRateLimited_def exEnv_def emptyResult_def requeueAfter_def Second_def)
qed

text \<open>C5, a start timestamp that is not RFC3339. As stated (the error comes with an empty
  directive) the claim fails: the directive carries \<open>retryDelay\<close>. Below the timestamp is
  the text \<^verbatim>\<open>yesterday\<close> and the caller passes ten seconds.\<close>

theorem timestamp_parse_failure_counterexample:
  "ensureRunnerUnregistration (exEnv (Inr []) None (30 * Second)) (5 * Minute) (10 * Second)
       exScope ''example-runnerset-0'' (Some exPodBadStart) [] =
     (Return (Some (requeueAfter (10 * Second)), Some (ParseError ''yesterday'')),
      [EvListRunners exScope])
   \<and> requeueAfter (10 * Second) \<noteq> emptyResult"
proof -
  let ?E = "exEnv (Inr []) None (30 * Second)"
  have d: "annotationValue exPodBadStart AnnotationKeyUnregistrationCompleteTimestamp = []"
    by (simp add: annotationValue_def exPodBadStart_def key_defs)
  have e: "\<not> runnerPodOrContainerIsStopped ?E (Some exPodBadStart)"
    by (simp add: ex_defs)
  have f: "annotationValue exPodBadStart AnnotationKeyUnregistrationStartTimestamp = ''yesterday''"
    by (simp add: annotationValue_def exPodBadStart_def key_defs)
  have g: "''yesterday'' \<noteq> []"
    by simp
  have i: "time_Parse_RFC3339 ?E ''yesterday'' = Inl (ParseError ''yesterday'')"
    by (simp add: exEnv_def exParse_def)
  show ?thesis
    using ensure_bad_timestamp [OF ex_no_runner_id(5) ex_unparsed ex_not_found d e f g i]
    by (simp add: requeueAfter_def emptyResult_def Second_def)
qed

text \<open>C5 as amended: when the grace period branch is reached and the start timestamp does not
  parse, the parse error is returned to the caller together with a directive whose delay is
  \<open>retryDelay\<close>; no clock is read and nothing is recovered.\<close>

theorem timestamp_parse_failure:
  assumes rid: "getAnnotation (Some p) AnnotationKeyRunnerID = Return (idText, hasID)"
      and parsed: "hasID \<Longrightarrow> ParseInt idText = Inr v"
      and notfound: "unregisterRunner E sc runner (if hasID then Some v else None) h = ((False, None), h1)"
      and incomplete: "annotationValue p AnnotationKeyUnregistrationCompleteTimestamp = []"
      and running: "\<not> runnerPodOrContainerIsStopped E (Some p)"
      and started: "annotationValue p AnnotationKeyUnregistrationStartTimestamp = ts" "ts \<noteq> []"
      and bad: "time_Parse_RFC3339 E ts = Inl err"
  shows "ensureRunnerUnregistration E unregistrationTimeout retryDelay sc runner (Some p) h =
           (Return (Some (requeueAfter retryDelay), Some err), h1)"
  using assms by (cases hasID) (simp_all add: ensureRunnerUnregistration_def)

theorem timestamp_parse_failure_witness:
  "ensureRunnerUnregistration (exEnv (Inr []) None (30 * Second)) (5 * Minute) (20 * Second)
       exScope ''example-runnerset-0'' (Some exPodBadStart) [] =
     (Return (Some (requeueAfter (20 * Second)), Some (ParseError ''yesterday'')),
      [EvListRunners exScope])"
proof -
  let ?E = "exEnv (Inr []) None (30 * Second)"
  have d: "annotationValue exPodBadStart AnnotationKeyUnregistrationCompleteTimestamp = []"
    by (simp add: annotationValue_def exPodBadStart_def key_defs)
  have e: "\<not> runnerPodOrContainerIsStopped ?E (Some exPodBadStart)"
    by (simp add: ex_defs)
  have f: "annotationValue exPodBadStart AnnotationKeyUnregistrationStartTimestamp = ''yesterday''"
    by (simp add: annotationValue_def exPodBadStart_def key_defs)
  have g: "''yesterday'' \<noteq> []"
    by simp
  have i: "time_Parse_RFC3339 ?E ''yesterday'' = Inl (ParseError ''yesterday'')"
    by (simp add: exEnv_def exParse_def)
  show ?thesis
    using timestamp_parse_failure [OF ex_no_runner_id(5) ex_unparsed ex_not_found d e f g i] .
qed

text \<open>C6, the runner that was never created. The claim is that a nil pod together with a
  not-found answer is safe to delete, and the branch \<^verbatim>\<open>else if pod == nil\<close> is there for it.
  The code does not reach it: with a registry that has no such runner (\<open>unregisterRunner\<close>
  would return false and no error), \<open>ensureRunnerUnregistration\<close> on the nil pod panics in
  its first statement, before any call of the registry, and so does the tick.\<close>

theorem never_created_runner_panics:
  "unregisterRunner (exEnv (Inr []) None (30 * Second)) exScope ''example-runnerset-0'' None [] =
     ((False, None), [EvListRunners exScope])
   \<and> ensureRunnerUnregistration (exEnv (Inr []) None (30 * Second)) (5 * Minute) (10 * Second)
       exScope ''example-runnerset-0'' None [] = (Panic, [])
   \<and> tickRunnerGracefulStop (exEnv (Inr []) None (30 * Second)) (5 * Minute) (10 * Second)
       exScope ''example-runnerset-0'' None [] = (Panic, [EvNow])"
  using ex_not_found [of None "30 * Second" "''example-runnerset-0''"]
  by (simp add: ensure_nil_pod tickRunnerGracefulStop_def annotatePodOnce_def call_Now_def)

text \<open>C7, annotating is idempotent and writes once. As stated (a value, once set, is never
  overwritten by an operation of this core) the claim fails. The presence test of
  \<open>annotatePodOnce\<close> reads the pod it is given, and the patch carries no resource version.
  Below the server stores a pod with no annotation and \<open>annotatePodOnce\<close> is given that pod
  twice, as a caller does that reads a pod from a cache not yet refreshed: the first call
  sets the start timestamp to 00:00:00, in the pod returned and in the pod stored; the
  second call sends a second patch and the value becomes 00:10:00.\<close>

theorem annotation_write_once_counterexample:
  "getAnnotation
       (returnedPod (annotatePodOnce (exEnvServer exPod) (Some exPod)
          AnnotationKeyUnregistrationStartTimestamp ''2022-03-01T00:00:00Z'' []))
       AnnotationKeyUnregistrationStartTimestamp = Return (''2022-03-01T00:00:00Z'', True)
   \<and> snd (annotatePodOnce (exEnvServer exPod) (Some exPod)
          AnnotationKeyUnregistrationStartTimestamp ''2022-03-01T00:00:00Z'' []) =
       [EvPatch (setAnnotation exPod AnnotationKeyUnregistrationStartTimestamp ''2022-03-01T00:00:00Z'')
          exPod]
   \<and> getAnnotation
       (Some (storedAfter exPod
          [EvPatch (setAnnotation exPod AnnotationKeyUnregistrationStartTimestamp ''2022-03-01T00:00:00Z'')
             exPod]))
       AnnotationKeyUnregistrationStartTimestamp = Return (''2022-03-01T00:00:00Z'', True)
   \<and> getAnnotation
       (returnedPod (annotatePodOnce (exEnvServer exPod) (Some exPod)
          AnnotationKeyUnregistrationStartTimestamp ''2022-03-01T00:10:00Z''
          [EvPatch (setAnnotation exPod AnnotationKeyUnregistrationStartTimestamp ''2022-03-01T00:00:00Z'')
             exPod]))
       AnnotationKeyUnregistrationStartTimestamp = Return (''2022-03-01T00:10:00Z'', True)
   \<and> snd (annotatePodOnce (exEnvServer exPod) (Some exPod)
          AnnotationKeyUnregistrationStartTimestamp ''2022-03-01T00:10:00Z''
          [EvPatch (setAnnotation exPod AnnotationKeyUnregistrationStartTimestamp ''2022-03-01T00:00:00Z'')
             exPod]) =
       [EvPatch (setAnnotation exPod AnnotationKeyUnregistrationStartTimestamp ''2022-03-01T00:00:00Z'')
          exPod,
        EvPatch (setAnnotation exPod AnnotationKeyUnregistrationStartTimestamp ''2022-03-01T00:10:00Z'')
          exPod]
   \<and> getAnnotation
       (Some (storedAfter exPod
          [EvPatch (setAnnotation exPod AnnotationKeyUnregistrationStartTimestamp ''2022-03-01T00:00:00Z'')
             exPod,
           EvPatch (setAnnotation exPod AnnotationKeyUnregistrationStartTimestamp ''2022-03-01T00:10:00Z'')
             exPod]))
       AnnotationKeyUnregistrationStartTimestamp = Return (''2022-03-01T00:10:00Z'', True)"
proof -
  let ?K = AnnotationKeyUnregistrationStartTimestamp
  let ?E = "exEnvServer exPod"
  let ?u1 = "setAnnotation exPod ?K ''2022-03-01T00:00:00Z''"
  let ?u2 = "setAnnotation exPod ?K ''2022-03-01T00:10:00Z''"
  have server: "client_Patch ?E = exApiServer exPod"
    by (simp add: exEnvServer_def exEnv_def)
  have first: "annotatePodOnce ?E (Some exPod) ?K ''2022-03-01T00:00:00Z'' [] =
      (Return (Some (applyPatch exPod (mergeFrom exPod ?u1)), None), [EvPatch ?u1 exPod])"
    by (simp add: annotate_absent [OF ex_no_timestamps(1)] server exApiServer_def)
  have second: "annotatePodOnce ?E (Some exPod) ?K ''2022-03-01T00:10:00Z'' [EvPatch ?u1 exPod] =
      (Return (Some (applyPatch (applyPatch exPod (mergeFrom exPod ?u1)) (mergeFrom exPod ?u2)), None),
       [EvPatch ?u1 exPod, EvPatch ?u2 exPod])"
    by (simp add: annotate_absent [OF ex_no_timestamps(1)] server exApiServer_def)
  have one: "getAnnotation (Some (applyPatch exPod (mergeFrom exPod ?u1))) ?K =
      Return (''2022-03-01T00:00:00Z'', True)"
    by (simp add: getAnnotation_def applyPatch_def mergeFrom_def lookupAnnotation_def
        setAnnotation_def exPod_def)
  have two: "getAnnotation
      (Some (applyPatch (applyPatch exPod (mergeFrom exPod ?u1)) (mergeFrom exPod ?u2))) ?K =
      Return (''2022-03-01T00:10:00Z'', True)"
    by (simp add: getAnnotation_def applyPatch_def mergeFrom_def lookupAnnotation_def
        setAnnotation_def exPod_def)
  show ?thesis
    by (simp add: first second returnedPod_def one two)
qed

text \<open>C7 as amended. If the key is present in the pod given, \<open>annotatePodOnce\<close> returns that
  pod and the history is unchanged (no patch). A second call with the same key, whatever
  the value, on a pod that a first call returned is such a call whenever the pod returned
  carries the key, as the answer of a server that applied the patch does. Every patch that
  \<open>annotatePodOnce\<close>, the tick or \<open>ensureRunnerPodRegistered\<close> sends adds one key that the pod
  given lacks and changes or removes no annotation of the pod given.\<close>

theorem annotation_write_once:
  "(getAnnotation (Some p) k = Return (x, True) \<longrightarrow>
      annotatePodOnce E (Some p) k v h = (Return (Some p, None), h))
   \<and> (annotatePodOnce E pod k v h = (Return (Some p1, None), h1) \<longrightarrow>
      getAnnotation (Some p1) k = Return (x1, True) \<longrightarrow>
      annotatePodOnce E (Some p1) k v' h1 = (Return (Some p1, None), h1))
   \<and> (\<forall>ev \<in> set (drop (length h) (snd (annotatePodOnce E pod k v h))). addsAnnotation k ev)
   \<and> (\<forall>ev \<in> set (drop (length h)
                 (snd (tickRunnerGracefulStop E unregistrationTimeout retryDelay sc runner pod h))).
        addsAnnotation AnnotationKeyUnregistrationStartTimestamp ev
        \<or> addsAnnotation AnnotationKeyUnregistrationCompleteTimestamp ev)
   \<and> (\<forall>ev \<in> set (drop (length h) (snd (ensureRunnerPodRegistered E sc runner pod h))).
        addsAnnotation AnnotationKeyRunnerID ev)"
proof (intro conjI impI)
  assume "getAnnotation (Some p) k = Return (x, True)"
  then show "annotatePodOnce E (Some p) k v h = (Return (Some p, None), h)"
    by (rule annotate_present)
next
  assume "getAnnotation (Some p1) k = Return (x1, True)"
  then show "annotatePodOnce E (Some p1) k v' h1 = (Return (Some p1, None), h1)"
    by (rule annotate_present)
next
  show "\<forall>ev \<in> set (drop (length h) (snd (annotatePodOnce E pod k v h))). addsAnnotation k ev"
    using annotate_appends [of E pod k v h] by auto
next
  show "\<forall>ev \<in> set (drop (length h)
                 (snd (tickRunnerGracefulStop E unregistrationTimeout retryDelay sc runner pod h))).
        addsAnnotation AnnotationKeyUnregistrationStartTimestamp ev
        \<or> addsAnnotation AnnotationKeyUnregistrationCompleteTimestamp ev"
    by (rule tick_appends)
next
  show "\<forall>ev \<in> set (drop (length h) (snd (ensureRunnerPodRegistered E sc runner pod h))).
        addsAnnotation AnnotationKeyRunnerID ev"
    by (rule registered_appends)
qed

text \<open>A started pod is not annotated again; a runner id, once the server has answered with
  47, is not set to 48; the two patches of a tick add the start and the complete
  timestamp; the patch of the registration adds the runner id.\<close>

theorem annotation_write_once_witness:
  "annotatePodOnce (exEnv (Inr []) None (30 * Second)) (Some exPodStarted)
       AnnotationKeyUnregistrationStartTimestamp ''2022-03-01T00:10:00Z'' [] =
     (Return (Some exPodStarted, None), [])
   \<and> annotatePodOnce (exEnv (Inr []) None (30 * Second))
       (Some (setAnnotation exPod AnnotationKeyRunnerID ''47''))
       AnnotationKeyRunnerID ''48'' [EvPatch (setAnnotation exPod AnnotationKeyRunnerID ''47'') exPod] =
     (Return (Some (setAnnotation exPod AnnotationKeyRunnerID ''47''), None),
      [EvPatch (setAnnotation exPod AnnotationKeyRunnerID ''47'') exPod])
   \<and> addsAnnotation AnnotationKeyRunnerID
       (EvPatch (setAnnotation exPod AnnotationKeyRunnerID ''47'') exPod)
   \<and> (addsAnnotation AnnotationKeyUnregistrationStartTimestamp
        (EvPatch (setAnnotation
                (setAnnotation exPodExited AnnotationKeyUnregistrationStartTimestamp ''2022-03-01T00:10:00Z'')
                AnnotationKeyUnregistrationCompleteTimestamp ''2022-03-01T00:10:00Z'')
         (setAnnotation exPodExited AnnotationKeyUnregistrationStartTimestamp ''2022-03-01T00:10:00Z''))
      \<or> addsAnnotation AnnotationKeyUnregistrationCompleteTimestamp
        (EvPatch (setAnnotation
                (setAnnotation exPodExited AnnotationKeyUnregistrationStartTimestamp ''2022-03-01T00:10:00Z'')
                AnnotationKeyUnregistrationCompleteTimestamp ''2022-03-01T00:10:00Z'')
         (setAnnotation exPodExited AnnotationKeyUnregistrationStartTimestamp ''2022-03-01T00:10:00Z'')))
   \<and> addsAnnotation AnnotationKeyRunnerID
       (EvPatch (setAnnotation exPod AnnotationKeyRunnerID (Sprintf_d 47)) exPod)"
proof -
  let ?E = "exEnv (Inr []) None (30 * Second)"
  let ?R = "exEnv (Inr [exRunner]) None (30 * Second)"
  let ?C = "exEnv (Inr [exRunner]) (Some (Wrapped ''failed to remove runner'' (ErrorResponse 422)))
      (30 * Second)"
  let ?p47 = "setAnnotation exPod AnnotationKeyRunnerID ''47''"
  let ?q1 = "setAnnotation exPodExited AnnotationKeyUnregistrationStartTimestamp ''2022-03-01T00:10:00Z''"
  let ?q2 = "setAnnotation ?q1 AnnotationKeyUnregistrationCompleteTimestamp ''2022-03-01T00:10:00Z''"
  have s: "getAnnotation (Some exPodStarted) AnnotationKeyUnregistrationStartTimestamp =
             Return (''2022-03-01T00:00:00Z'', True)"
    by (simp add: getAnnotation_def exPodStarted_def key_defs)
  have first: "annotatePodOnce ?E (Some exPod) AnnotationKeyRunnerID ''47'' [] =
      (Return (Some ?p47, None), [EvPatch ?p47 exPod])"
    using annotate_absent [OF ex_no_runner_id(1), of ?E "''47''" "[]"] by (simp add: exEnv_def)
  have a: "annotatePodOnce ?E (Some exPodStarted)
       AnnotationKeyUnregistrationStartTimestamp ''2022-03-01T00:10:00Z'' [] =
     (Return (Some exPodStarted, None), [])"
    using annotation_write_once [where p = exPodStarted
        and k = AnnotationKeyUnregistrationStartTimestamp and x = "''2022-03-01T00:00:00Z''"
        and E = ?E and v = "''2022-03-01T00:10:00Z''" and h = "[]", THEN conjunct1] s
    by simp
  have b: "annotatePodOnce ?E (Some ?p47) AnnotationKeyRunnerID ''48'' [EvPatch ?p47 exPod] =
     (Return (Some ?p47, None), [EvPatch ?p47 exPod])"
    using annotation_write_once [where E = ?E and pod = "Some exPod" and k = AnnotationKeyRunnerID
        and v = "''47''" and h = "[]" and ?p1.0 = ?p47 and ?h1.0 = "[EvPatch ?p47 exPod]"
        and ?x1.0 = "''47''" and v' = "''48''", THEN conjunct2, THEN conjunct1]
      first getAnnotation_setAnnotation_same [of exPod AnnotationKeyRunnerID "''47''"]
    by simp
  have c: "addsAnnotation AnnotationKeyRunnerID (EvPatch ?p47 exPod)"
    using annotation_write_once [where E = ?E and pod = "Some exPod" and k = AnnotationKeyRunnerID
        and v = "''47''" and h = "[]", THEN conjunct2, THEN conjunct2, THEN conjunct1] first
    by simp
  have d: "addsAnnotation AnnotationKeyUnregistrationStartTimestamp (EvPatch ?q2 ?q1)
      \<or> addsAnnotation AnnotationKeyUnregistrationCompleteTimestamp (EvPatch ?q2 ?q1)"
    using annotation_write_once [where E = ?C and pod = "Some exPodExited" and h = "[]"
        and unregistrationTimeout = "5 * Minute" and retryDelay = "10 * Second" and sc = exScope
        and runner = "''example-runnerset-0''",
        THEN conjunct2, THEN conjunct2, THEN conjunct2, THEN conjunct1]
    by (simp add: ex_tick_conflict)
  have registered: "snd (ensureRunnerPodRegistered ?R exScope ''example-runnerset-0'' (Some exPod) []) =
      [EvListRunners exScope, EvPatch (setAnnotation exPod AnnotationKeyRunnerID (Sprintf_d 47)) exPod]"
    using annotate_absent [OF ex_no_runner_id(1), of ?R "Sprintf_d 47" "[EvListRunners exScope]"]
    by (simp add: ensureRunnerPodRegistered_def ex_no_runner_id(1) getRunner_eq)
      (simp add: ex_defs GetName_def)
  have e: "addsAnnotation AnnotationKeyRunnerID
      (EvPatch (setAnnotation exPod AnnotationKeyRunnerID (Sprintf_d 47)) exPod)"
    using annotation_write_once [where E = ?R and pod = "Some exPod" and h = "[]" and sc = exScope
        and runner = "''example-runnerset-0''",
        THEN conjunct2, THEN conjunct2, THEN conjunct2, THEN conjunct2]
    by (simp add: registered)
  from a b c d e show ?thesis by simp
qed

text \<open>C8, the bound on side effects. Whatever the pod and the collaborators, the events that one
  tick appends to the history hold at most two patches and at most one removal; the other
  events are reads, at most two listings of the registry and at most three readings of the
  clock, and there is no event of another kind.\<close>

theorem side_effect_bound:
  "\<exists>es. snd (tickRunnerGracefulStop E unregistrationTimeout retryDelay sc runner pod h) = h @ es
        \<and> calls isPatch es \<le> 2 \<and> calls isRemoveRunner es \<le> 1
        \<and> calls isListRunners es \<le> 2 \<and> calls isNow es \<le> 3
        \<and> length es =
            calls isPatch es + calls isRemoveRunner es + calls isListRunners es + calls isNow es"
proof -
  let ?a1 = "annotatePodOnce E pod AnnotationKeyUnregistrationStartTimestamp
      (time_Format_RFC3339 E (time_Now E h)) (h @ [EvNow])"
  obtain o1 h2 where a1: "?a1 = (o1, h2)" by (cases ?a1)
  let ?tick = "snd (tickRunnerGracefulStop E unregistrationTimeout retryDelay sc runner pod h)"
  from annotate_history [of E pod AnnotationKeyUnregistrationStartTimestamp
      "time_Format_RFC3339 E (time_Now E h)" "h @ [EvNow]"] a1
  obtain es1 where es1: "h2 = h @ [EvNow] @ es1" "calls isPatch es1 \<le> 1"
    "calls isRemoveRunner es1 = 0" "calls isListRunners es1 = 0" "calls isNow es1 = 0"
    by auto
  show ?thesis
  proof (cases o1)
    case Panic
    with a1 es1 have "\<exists>es. ?tick = h @ es
        \<and> calls isPatch es \<le> 2 \<and> calls isRemoveRunner es \<le> 1
        \<and> calls isListRunners es \<le> 2 \<and> calls isNow es \<le> 3"
      by (simp add: tickRunnerGracefulStop_def call_Now_def)
    then show ?thesis
      using calls_total by blast
  next
    case (Return a)
    obtain pod1 err1 where a: "a = (pod1, err1)" by (cases a)
    let ?e = "ensureRunnerUnregistration E unregistrationTimeout retryDelay sc runner pod1 h2"
    obtain o2 h3 where e: "?e = (o2, h3)" by (cases ?e)
    from ensure_history [of E unregistrationTimeout retryDelay sc runner pod1 h2] e
    obtain es2 where es2: "h3 = h2 @ es2" "calls isPatch es2 = 0" "calls isRemoveRunner es2 \<le> 1"
      "calls isListRunners es2 \<le> 2" "calls isNow es2 \<le> 1"
      by auto
    let ?a2 = "annotatePodOnce E pod1 AnnotationKeyUnregistrationCompleteTimestamp
      (time_Format_RFC3339 E (time_Now E h3)) (h3 @ [EvNow])"
    obtain o3 h5 where a2: "?a2 = (o3, h5)" by (cases ?a2)
    from annotate_history [of E pod1 AnnotationKeyUnregistrationCompleteTimestamp
        "time_Format_RFC3339 E (time_Now E h3)" "h3 @ [EvNow]"] a2
    obtain es3 where es3: "h5 = h3 @ [EvNow] @ es3" "calls isPatch es3 \<le> 1"
      "calls isRemoveRunner es3 = 0" "calls isListRunners es3 = 0" "calls isNow es3 = 0"
      by auto
    have "snd (tickRunnerGracefulStop E unregistrationTimeout retryDelay sc runner pod h)
            \<in> {h2, h3, h5}"
      using a1 Return a e a2
      by (simp add: tickRunnerGracefulStop_def call_Now_def split: outcome.splits option.splits
          prod.splits)
    with es1 es2 es3 have "\<exists>es. ?tick = h @ es
        \<and> calls isPatch es \<le> 2 \<and> calls isRemoveRunner es \<le> 1
        \<and> calls isListRunners es \<le> 2 \<and> calls isNow es \<le> 3"
      by auto
    then show ?thesis
      using calls_total by blast
  qed
qed


text \<open>The tick with the most calls: both annotations are patched, the removal fails with a
  422, the registry is listed twice.\<close>

theorem side_effect_bound_witness:
  "calls isPatch (snd (tickRunnerGracefulStop
       (exEnv (Inr [exRunner]) (Some (Wrapped ''failed to remove runner'' (ErrorResponse 422))) (30 * Second))
       (5 * Minute) (10 * Second) exScope ''example-runnerset-0'' (Some exPodExited) [])) = 2
   \<and> calls isRemoveRunner (snd (tickRunnerGracefulStop
       (exEnv (Inr [exRunner]) (Some (Wrapped ''failed to remove runner'' (ErrorResponse 422))) (30 * Second))
       (5 * Minute) (10 * Second) exScope ''example-runnerset-0'' (Some exPodExited) [])) = 1
   \<and> (\<exists>es. snd (tickRunnerGracefulStop
       (exEnv (Inr [exRunner]) (Some (Wrapped ''failed to remove runner'' (ErrorResponse 422))) (30 * Second))
       (5 * Minute) (10 * Second) exScope ''example-runnerset-0'' (Some exPodExited) []) = [] @ es
        \<and> calls isPatch es \<le> 2 \<and> calls isRemoveRunner es \<le> 1
        \<and> calls isListRunners es \<le> 2 \<and> calls isNow es \<le> 3
        \<and> length es =
            calls isPatch es + calls isRemoveRunner es + calls isListRunners es + calls isNow es)"
  using side_effect_bound [of
      "exEnv (Inr [exRunner]) (Some (Wrapped ''failed to remove runner'' (ErrorResponse 422))) (30 * Second)"
      "5 * Minute" "10 * Second" exScope "''example-runnerset-0''" "Some exPodExited" "[]"]
  by (simp add: ex_tick_conflict)

text \<open>C9, no error is dropped. As stated the claim fails: below the removal fails with a 422,
  the runner container has exited, and both \<open>ensureRunnerUnregistration\<close> and the tick
  return no error.\<close>

theorem error_propagation_counterexample:
  "unregisterRunner
       (exEnv (Inr [exRunner]) (Some (Wrapped ''failed to remove runner'' (ErrorResponse 422))) (30 * Second))
       exScope ''example-runnerset-0'' None [] =
     ((False, Some (Wrapped ''failed to remove runner'' (ErrorResponse 422))),
      [EvListRunners exScope, EvRemoveRunner exScope 47])
   \<and> ensureRunnerUnregistration
       (exEnv (Inr [exRunner]) (Some (Wrapped ''failed to remove runner'' (ErrorResponse 422))) (30 * Second))
       (5 * Minute) (10 * Second) exScope ''example-runnerset-0'' (Some exPodExited) [] =
     (Return (None, None), [EvListRunners exScope, EvRemoveRunner exScope 47, EvListRunners exScope])
   \<and> fst (tickRunnerGracefulStop
       (exEnv (Inr [exRunner]) (Some (Wrapped ''failed to remove runner'' (ErrorResponse 422))) (30 * Second))
       (5 * Minute) (10 * Second) exScope ''example-runnerset-0'' (Some exPodExited) []) =
     Return (Some (setAnnotation
                (setAnnotation exPodExited AnnotationKeyUnregistrationStartTimestamp ''2022-03-01T00:10:00Z'')
                AnnotationKeyUnregistrationCompleteTimestamp ''2022-03-01T00:10:00Z''), None, None)"
proof -
  let ?err = "Wrapped ''failed to remove runner'' (ErrorResponse 422)"
  let ?E = "exEnv (Inr [exRunner]) (Some ?err) (30 * Second)"
  have u: "unregisterRunner ?E exScope ''example-runnerset-0'' (if False then Some 0 else None) [] =
     ((False, Some ?err), [EvListRunners exScope, EvRemoveRunner exScope 47])"
    by (rule ex_remove_fails)
  have code: "runnerContainerExitCode ?E (Some exPodExited) \<noteq> None"
    by (simp add: ex_defs)
  have e: "ensureRunnerUnregistration ?E (5 * Minute) (10 * Second) exScope ''example-runnerset-0''
      (Some exPodExited) [] =
      (Return (None, None), [EvListRunners exScope, EvRemoveRunner exScope 47, EvListRunners exScope])"
    using ensure_error [OF ex_no_runner_id(4) _ u] code
    by simp
  from u e show ?thesis
    by (simp add: ex_tick_conflict)
qed


text \<open>C9 as amended. A failed patch makes \<open>annotatePodOnce\<close> return its error; a failed
  \<^verbatim>\<open>ListRunners\<close> or \<^verbatim>\<open>RemoveRunner\<close> makes \<open>unregisterRunner\<close> return its error. In
  \<open>ensureRunnerUnregistration\<close> the parse error of the runner id, the parse error of the start
  timestamp and the error of \<open>unregisterRunner\<close> are returned as the error, with one
  exception: an error response of status 422 on a pod whose runner container has an exit
  code gives (nil, nil). The result after an error response does not depend on what the
  second listing of the registry answers. \<open>ensureRunnerUnregistration\<close> returns no error
  with a nil directive, and the tick returns the error of either \<open>annotatePodOnce\<close> and
  the directive and error of \<open>ensureRunnerUnregistration\<close> as they are.\<close>

theorem error_propagation:
  "(getAnnotation (Some p) k = Return (x, False) \<longrightarrow>
      client_Patch E (setAnnotation p k v) p h = Inl e \<longrightarrow>
      annotatePodOnce E (Some p) k v h =
        (Return (None, Some e), h @ [EvPatch (setAnnotation p k v) p]))
   \<and> (ListRunners E sc h = Inl e \<longrightarrow>
      unregisterRunner E sc runner None h = ((False, Some e), h @ [EvListRunners sc]))
   \<and> (RemoveRunner E sc i h = Some e \<longrightarrow>
      unregisterRunner E sc runner (Some i) h = ((False, Some e), h @ [EvRemoveRunner sc i]))
   \<and> (ListRunners E sc h = Inr runners \<longrightarrow>
      find (\<lambda>r. GetName r = runner) runners = Some r0 \<longrightarrow> ID r0 = Some i \<longrightarrow>
      RemoveRunner E sc i (h @ [EvListRunners sc]) = Some e \<longrightarrow>
      unregisterRunner E sc runner None h =
        ((False, Some e), h @ [EvListRunners sc, EvRemoveRunner sc i]))
   \<and> (getAnnotation (Some p) AnnotationKeyRunnerID = Return (idText, True) \<longrightarrow>
      ParseInt idText = Inl e \<longrightarrow>
      ensureRunnerUnregistration E unregistrationTimeout retryDelay sc runner (Some p) h =
        (Return (Some emptyResult, Some e), h))
   \<and> (getAnnotation (Some p) AnnotationKeyRunnerID = Return (idText, hasID) \<longrightarrow>
      (hasID \<longrightarrow> ParseInt idText = Inr n) \<longrightarrow>
      unregisterRunner E sc runner (if hasID then Some n else None) h = ((ok, Some e), h1) \<longrightarrow>
      ensureRunnerUnregistration E unregistrationTimeout retryDelay sc runner (Some p) h =
        (if errors_Is_RateLimitError e
         then (Return (Some (requeueAfter (retryDelayOnGitHubAPIRateLimitError E)), Some e), h1)
         else
           (case errors_As_ErrorResponse e of
              None \<Rightarrow> (Return (Some emptyResult, Some e), h1)
            | Some StatusCode \<Rightarrow>
                if StatusCode = 422 \<and> runnerContainerExitCode E (Some p) \<noteq> None
                then (Return (None, None), h1 @ [EvListRunners sc])
                else (Return (Some emptyResult, Some e), h1 @ [EvListRunners sc]))))
   \<and> (getAnnotation (Some p) AnnotationKeyRunnerID = Return (idText, hasID) \<longrightarrow>
      (hasID \<longrightarrow> ParseInt idText = Inr n) \<longrightarrow>
      unregisterRunner E sc runner (if hasID then Some n else None) h = ((False, None), h1) \<longrightarrow>
      annotationValue p AnnotationKeyUnregistrationCompleteTimestamp = [] \<longrightarrow>
      \<not> runnerPodOrContainerIsStopped E (Some p) \<longrightarrow>
      annotationValue p AnnotationKeyUnregistrationStartTimestamp \<noteq> [] \<longrightarrow>
      time_Parse_RFC3339 E (annotationValue p AnnotationKeyUnregistrationStartTimestamp) = Inl e \<longrightarrow>
      ensureRunnerUnregistration E unregistrationTimeout retryDelay sc runner (Some p) h =
        (Return (Some (requeueAfter retryDelay), Some e), h1))
   \<and> (ensureRunnerUnregistration E unregistrationTimeout retryDelay sc runner pod h =
        (Return (None, err), h') \<longrightarrow> err = None)
   \<and> (annotatePodOnce E pod AnnotationKeyUnregistrationStartTimestamp
        (time_Format_RFC3339 E (time_Now E h)) (h @ [EvNow]) = (Return (pod1, Some e), h2) \<longrightarrow>
      tickRunnerGracefulStop E unregistrationTimeout retryDelay sc runner pod h =
        (Return (None, Some emptyResult, Some e), h2))
   \<and> (annotatePodOnce E pod AnnotationKeyUnregistrationStartTimestamp
        (time_Format_RFC3339 E (time_Now E h)) (h @ [EvNow]) = (Return (pod1, None), h2) \<longrightarrow>
      ensureRunnerUnregistration E unregistrationTimeout retryDelay sc runner pod1 h2 =
        (Return (Some res, err), h3) \<longrightarrow>
      tickRunnerGracefulStop E unregistrationTimeout retryDelay sc runner pod h =
        (Return (None, Some res, err), h3))
   \<and> (annotatePodOnce E pod AnnotationKeyUnregistrationStartTimestamp
        (time_Format_RFC3339 E (time_Now E h)) (h @ [EvNow]) = (Return (pod1, None), h2) \<longrightarrow>
      ensureRunnerUnregistration E unregistrationTimeout retryDelay sc runner pod1 h2 =
        (Return (None, err), h3) \<longrightarrow>
      annotatePodOnce E pod1 AnnotationKeyUnregistrationCompleteTimestamp
        (time_Format_RFC3339 E (time_Now E h3)) (h3 @ [EvNow]) = (Return (pod2, Some e), h5) \<longrightarrow>
      tickRunnerGracefulStop E unregistrationTimeout retryDelay sc runner pod h =
        (Return (None, Some emptyResult, Some e), h5))"
proof (intro conjI impI)
  assume "getAnnotation (Some p) k = Return (x, False)"
    and "client_Patch E (setAnnotation p k v) p h = Inl e"
  then show "annotatePodOnce E (Some p) k v h =
        (Return (None, Some e), h @ [EvPatch (setAnnotation p k v) p])"
    by (rule annotate_patch_error)
next
  assume "ListRunners E sc h = Inl e"
  then show "unregisterRunner E sc runner None h = ((False, Some e), h @ [EvListRunners sc])"
    by (rule unregister_list_error)
next
  assume "RemoveRunner E sc i h = Some e"
  then show "unregisterRunner E sc runner (Some i) h = ((False, Some e), h @ [EvRemoveRunner sc i])"
    by (rule unregister_remove_error)
next
  assume "ListRunners E sc h = Inr runners"
    and "find (\<lambda>r. GetName r = runner) runners = Some r0" and "ID r0 = Some i"
    and "RemoveRunner E sc i (h @ [EvListRunners sc]) = Some e"
  then show "unregisterRunner E sc runner None h =
        ((False, Some e), h @ [EvListRunners sc, EvRemoveRunner sc i])"
    by (rule unregister_found_remove_error)
next
  assume "getAnnotation (Some p) AnnotationKeyRunnerID = Return (idText, True)"
    and "ParseInt idText = Inl e"
  then show "ensureRunnerUnregistration E unregistrationTimeout retryDelay sc runner (Some p) h =
        (Return (Some emptyResult, Some e), h)"
    by (rule ensure_bad_runner_id)
next
  assume "getAnnotation (Some p) AnnotationKeyRunnerID = Return (idText, hasID)"
    and "hasID \<longrightarrow> ParseInt idText = Inr n"
    and "unregisterRunner E sc runner (if hasID then Some n else None) h = ((ok, Some e), h1)"
  then show "ensureRunnerUnregistration E unregistrationTimeout retryDelay sc runner (Some p) h =
        (if errors_Is_RateLimitError e
         then (Return (Some (requeueAfter (retryDelayOnGitHubAPIRateLimitError E)), Some e), h1)
         else
           (case errors_As_ErrorResponse e of
              None \<Rightarrow> (Return (Some emptyResult, Some e), h1)
            | Some StatusCode \<Rightarrow>
                if StatusCode = 422 \<and> runnerContainerExitCode E (Some p) \<noteq> None
                then (Return (None, None), h1 @ [EvListRunners sc])
                else (Return (Some emptyResult, Some e), h1 @ [EvListRunners sc])))"
    by (rule ensure_error)
next
  assume "getAnnotation (Some p) AnnotationKeyRunnerID = Return (idText, hasID)"
    and "hasID \<longrightarrow> ParseInt idText = Inr n"
    and "unregisterRunner E sc runner (if hasID then Some n else None) h = ((False, None), h1)"
    and "annotationValue p AnnotationKeyUnregistrationCompleteTimestamp = []"
    and "\<not> runnerPodOrContainerIsStopped E (Some p)"
    and "annotationValue p AnnotationKeyUnregistrationStartTimestamp \<noteq> []"
    and "time_Parse_RFC3339 E (annotationValue p AnnotationKeyUnregistrationStartTimestamp) = Inl e"
  then show "ensureRunnerUnregistration E unregistrationTimeout retryDelay sc runner (Some p) h =
        (Return (Some (requeueAfter retryDelay), Some e), h1)"
    using ensure_bad_timestamp [of p idText hasID n E sc runner h h1
        "annotationValue p AnnotationKeyUnregistrationStartTimestamp" e]
    by blast
next
  assume "ensureRunnerUnregistration E unregistrationTimeout retryDelay sc runner pod h =
        (Return (None, err), h')"
  then show "err = None"
    by (rule ensure_nil_directive)
next
  assume "annotatePodOnce E pod AnnotationKeyUnregistrationStartTimestamp
        (time_Format_RFC3339 E (time_Now E h)) (h @ [EvNow]) = (Return (pod1, Some e), h2)"
  then show "tickRunnerGracefulStop E unregistrationTimeout retryDelay sc runner pod h =
        (Return (None, Some emptyResult, Some e), h2)"
    by (rule tick_first_patch_error)
next
  assume "annotatePodOnce E pod AnnotationKeyUnregistrationStartTimestamp
        (time_Format_RFC3339 E (time_Now E h)) (h @ [EvNow]) = (Return (pod1, None), h2)"
    and "ensureRunnerUnregistration E unregistrationTimeout retryDelay sc runner pod1 h2 =
        (Return (Some res, err), h3)"
  then show "tickRunnerGracefulStop E unregistrationTimeout retryDelay sc runner pod h =
        (Return (None, Some res, err), h3)"
    by (rule tick_retry)
next
  assume "annotatePodOnce E pod AnnotationKeyUnregistrationStartTimestamp
        (time_Format_RFC3339 E (time_Now E h)) (h @ [EvNow]) = (Return (pod1, None), h2)"
    and "ensureRunnerUnregistration E unregistrationTimeout retryDelay sc runner pod1 h2 =
        (Return (None, err), h3)"
    and "annotatePodOnce E pod1 AnnotationKeyUnregistrationCompleteTimestamp
        (time_Format_RFC3339 E (time_Now E h3)) (h3 @ [EvNow]) = (Return (pod2, Some e), h5)"
  then show "tickRunnerGracefulStop E unregistrationTimeout retryDelay sc runner pod h =
        (Return (None, Some emptyResult, Some e), h5)"
    by (rule tick_second_patch_error)
qed


text \<open>A patch that fails, a removal refused for the rate limit and a runner id that is not a
  number: each error is in the result.\<close>

theorem error_propagation_witness:
  "tickRunnerGracefulStop (exEnvPatchFails (Inr []) None (30 * Second)) (5 * Minute) (10 * Second)
       exScope ''example-runnerset-0'' (Some exPod) [] =
     (Return (None, Some emptyResult, Some (OtherError ''conflict'')),
      [EvNow, EvPatch (setAnnotation exPod AnnotationKeyUnregistrationStartTimestamp
                         ''2022-03-01T00:10:00Z'') exPod])
   \<and> tickRunnerGracefulStop (exEnv (Inr [exRunner]) (Some exRateLimited) (30 * Second))
       (5 * Minute) (10 * Second) exScope ''example-runnerset-0'' (Some exPodStarted) [] =
     (Return (None, Some emptyResult, Some exRateLimited),
      [EvNow, EvListRunners exScope, EvRemoveRunner exScope 47])
   \<and> ensureRunnerUnregistration (exEnv (Inr [exRunner]) None (30 * Second)) (5 * Minute) (10 * Second)
       exScope ''example-runnerset-0'' (Some exPodBadID) [] =
     (Return (Some emptyResult, Some (NumError ''4x'')), [])"
proof -
  let ?F = "exEnvPatchFails (Inr []) None (30 * Second)"
  let ?E = "exEnv (Inr [exRunner]) (Some exRateLimited) (30 * Second)"
  let ?p1 = "setAnnotation exPod AnnotationKeyUnregistrationStartTimestamp ''2022-03-01T00:10:00Z''"
  have envF: "client_Patch ?F ?p1 exPod [EvNow] = Inl (OtherError ''conflict'')"
    "time_Format_RFC3339 ?F (time_Now ?F []) = ''2022-03-01T00:10:00Z''"
    by (simp_all add: exEnvPatchFails_def exEnv_def)
  have a1: "annotatePodOnce ?F (Some exPod) AnnotationKeyUnregistrationStartTimestamp
      ''2022-03-01T00:10:00Z'' [EvNow] =
      (Return (None, Some (OtherError ''conflict'')), [EvNow, EvPatch ?p1 exPod])"
    using error_propagation [where p = exPod and k = AnnotationKeyUnregistrationStartTimestamp
        and x = "[]" and E = ?F and v = "''2022-03-01T00:10:00Z''" and h = "[EvNow]"
        and e = "OtherError ''conflict''", THEN conjunct1] ex_no_timestamps(1) envF(1)
    by simp
  have first: "tickRunnerGracefulStop ?F (5 * Minute) (10 * Second) exScope ''example-runnerset-0''
      (Some exPod) [] =
      (Return (None, Some emptyResult, Some (OtherError ''conflict'')), [EvNow, EvPatch ?p1 exPod])"
    using error_propagation [where E = ?F and pod = "Some exPod" and h = "[]" and ?pod1.0 = None
        and e = "OtherError ''conflict''" and ?h2.0 = "[EvNow, EvPatch ?p1 exPod]",
        THEN conjunct2, THEN conjunct2, THEN conjunct2, THEN conjunct2, THEN conjunct2,
        THEN conjunct2, THEN conjunct2, THEN conjunct2, THEN conjunct1] a1 envF(2)
    by simp
  have envE: "ListRunners ?E exScope [EvNow] = Inr [exRunner]"
    "RemoveRunner ?E exScope 47 ([EvNow] @ [EvListRunners exScope]) = Some exRateLimited"
    "retryDelayOnGitHubAPIRateLimitError ?E = 30 * Second"
    "time_Format_RFC3339 ?E (time_Now ?E []) = ''2022-03-01T00:10:00Z''"
    by (simp_all add: exEnv_def)
  have found: "find (\<lambda>r. GetName r = ''example-runnerset-0'') [exRunner] = Some exRunner"
    "ID exRunner = Some 47"
    by (simp_all add: exRunner_def GetName_def)
  have u: "unregisterRunner ?E exScope ''example-runnerset-0'' None [EvNow] =
      ((False, Some exRateLimited), [EvNow, EvListRunners exScope, EvRemoveRunner exScope 47])"
    using error_propagation [where E = ?E and sc = exScope and h = "[EvNow]"
        and runners = "[exRunner]" and ?r0.0 = exRunner and i = 47 and e = exRateLimited
        and runner = "''example-runnerset-0''",
        THEN conjunct2, THEN conjunct2, THEN conjunct2, THEN conjunct1] envE(1,2) found
    by simp
  have e: "ensureRunnerUnregistration ?E (5 * Minute) (10 * Second) exScope ''example-runnerset-0''
      (Some exPodStarted) [EvNow] =
      (Return (Some emptyResult, Some exRateLimited),
       [EvNow, EvListRunners exScope, EvRemoveRunner exScope 47])"
    using error_propagation [where E = ?E and sc = exScope and h = "[EvNow]" and p = exPodStarted
        and idText = "[]" and hasID = False and n = 0 and ok = False and e = exRateLimited
        and runner = "''example-runnerset-0''"
        and ?h1.0 = "[EvNow, EvListRunners exScope, EvRemoveRunner exScope 47]"
        and unregistrationTimeout = "5 * Minute" and retryDelay = "10 * Second",
        THEN conjunct2, THEN conjunct2, THEN conjunct2, THEN conjunct2, THEN conjunct2,
        THEN conjunct1] ex_no_runner_id(2) u envE(3)
    by (simp add: exRateLimited_def)
  have s: "getAnnotation (Some exPodStarted) AnnotationKeyUnregistrationStartTimestamp =
             Return (''2022-03-01T00:00:00Z'', True)"
    by (simp add: getAnnotation_def exPodStarted_def key_defs)
  have second: "tickRunnerGracefulStop ?E (5 * Minute) (10 * Second) exScope ''example-runnerset-0''
      (Some exPodStarted) [] =
      (Return (None, Some emptyResult, Some exRateLimited),
       [EvNow, EvListRunners exScope, EvRemoveRunner exScope 47])"
    using error_propagation [where E = ?E and sc = exScope and h = "[]" and pod = "Some exPodStarted"
        and ?pod1.0 = "Some exPodStarted" and ?h2.0 = "[EvNow]"
        and res = emptyResult and err = "Some exRateLimited"
        and runner = "''example-runnerset-0''"
        and ?h3.0 = "[EvNow, EvListRunners exScope, EvRemoveRunner exScope 47]"
        and unregistrationTimeout = "5 * Minute" and retryDelay = "10 * Second",
        THEN conjunct2, THEN conjunct2, THEN conjunct2, THEN conjunct2, THEN conjunct2,
        THEN conjunct2, THEN conjunct2, THEN conjunct2, THEN conjunct2, THEN conjunct1]
      annotate_present [OF s] e
    by simp
  have bad: "getAnnotation (Some exPodBadID) AnnotationKeyRunnerID = Return (''4x'', True)"
    "ParseInt ''4x'' = Inl (NumError ''4x'')"
    by (simp_all add: getAnnotation_def exPodBadID_def key_defs ParseInt_def ParseUint_def digitVal_def)
  have third: "ensureRunnerUnregistration (exEnv (Inr [exRunner]) None (30 * Second)) (5 * Minute)
      (10 * Second) exScope ''example-runnerset-0'' (Some exPodBadID) [] =
      (Return (Some emptyResult, Some (NumError ''4x'')), [])"
    using error_propagation [where p = exPodBadID and idText = "''4x''" and e = "NumError ''4x''",
        THEN conjunct2, THEN conjunct2, THEN conjunct2, THEN conjunct2, THEN conjunct1] bad
    by simp
  from first second third show ?thesis by simp
qed


text \<open>C10, a runner id that is not a number. For a pod that is not nil and whose runner id
  annotation is present but is not a decimal 64 bit integer, \<open>ensureRunnerUnregistration\<close>
  returns the empty directive and the parse error; the history is unchanged, so neither the
  registry nor the Kubernetes client was called.\<close>

theorem malformed_runner_id:
  assumes rid: "getAnnotation (Some p) AnnotationKeyRunnerID = Return (idText, True)"
      and bad: "ParseInt idText = Inl err"
  shows "ensureRunnerUnregistration E unregistrationTimeout retryDelay sc runner (Some p) h =
           (Return (Some emptyResult, Some err), h)"
  using assms by (simp add: ensureRunnerUnregistration_def)

theorem malformed_runner_id_witness:
  "ensureRunnerUnregistration (exEnv (Inr [exRunner]) None (30 * Second)) (5 * Minute) (10 * Second)
       exScope ''example-runnerset-0'' (Some exPodBadID) [] =
     (Return (Some emptyResult, Some (NumError ''4x'')), [])"
proof -
  have a: "getAnnotation (Some exPodBadID) AnnotationKeyRunnerID = Return (''4x'', True)"
    by (simp add: getAnnotation_def exPodBadID_def key_defs)
  have b: "ParseInt ''4x'' = Inl (NumError ''4x'')"
    by (simp add: ParseInt_def ParseUint_def digitVal_def)
  show ?thesis
    using malformed_runner_id [OF a b] .
qed


end
